theory Spec2Isabelle
  imports Complex_Main "HOL-Library.Multiset"
begin

section \<open>Errors and one-dimensional numpy arrays\<close>

text \<open>
  The calibration code of \<^verbatim>\<open>redmapper/redmagic/redmagic_calibrate.py\<close> works on numpy
  arrays of floats. A one-dimensional array is a list; float64 values are modelled as
  reals, so rounding, \<^verbatim>\<open>inf\<close> and \<^verbatim>\<open>nan\<close> are outside the model (a float division by
  zero warns and continues in numpy; the real quotient is \<open>0\<close>). Every \<^verbatim>\<open>raise\<close> of the
  source, and every exception numpy raises for a shape or index that does not fit, is an
  \<open>Inl\<close> value.
\<close>

datatype error = RuntimeError string | ValueError string | IndexError

definition bindE :: "error + 'a \<Rightarrow> ('a \<Rightarrow> error + 'b) \<Rightarrow> error + 'b" where
  "bindE m f = (case m of Inl e \<Rightarrow> Inl e | Inr v \<Rightarrow> f v)"

text \<open>A binary numpy operation on two 1-d arrays: equal sizes, or one of size one.\<close>

definition broadcast :: "('a \<Rightarrow> 'b \<Rightarrow> 'c) \<Rightarrow> 'a list \<Rightarrow> 'b list \<Rightarrow> error + 'c list" where
  "broadcast f xs ys =
     (if length xs = length ys then Inr (map2 f xs ys)
      else if length ys = 1 then Inr (map (\<lambda>x. f x (hd ys)) xs)
      else if length xs = 1 then Inr (map (f (hd xs)) ys)
      else Inl (ValueError ''operands could not be broadcast together''))"

text \<open>\<^verbatim>\<open>np.where(mask)\<close> on a 1-d boolean array: the indices that hold, ascending.\<close>

definition np_where :: "bool list \<Rightarrow> nat list" where
  "np_where m = filter (\<lambda>i. m ! i) [0..<length m]"

text \<open>\<^verbatim>\<open>xs[idx]\<close> with an array of (non-negative) indices; numpy raises IndexError
  when one is out of range.\<close>

definition index_by :: "'a list \<Rightarrow> nat list \<Rightarrow> error + 'a list" where
  "index_by xs idx =
     (if list_all (\<lambda>i. i < length xs) idx then Inr (map (\<lambda>i. xs ! i) idx)
      else Inl IndexError)"

text \<open>\<^verbatim>\<open>xs[i]\<close> with one index.\<close>

definition get :: "'a list \<Rightarrow> nat \<Rightarrow> error + 'a" where
  "get xs i = (if i < length xs then Inr (xs ! i) else Inl IndexError)"

text \<open>\<^verbatim>\<open>dst[:] = src\<close>: the source is broadcast into the shape of the destination.\<close>

definition slice_assign :: "'a list \<Rightarrow> 'a list \<Rightarrow> error + 'a list" where
  "slice_assign dst src =
     (if length src = length dst then Inr src
      else if length src = 1 then Inr (replicate (length dst) (hd src))
      else Inl (ValueError ''could not broadcast input array''))"

text \<open>An in-place operation \<^verbatim>\<open>xs &= ys\<close>: the right side is broadcast into the shape of
  the left side, which cannot grow.\<close>

definition inplace :: "('a \<Rightarrow> 'b \<Rightarrow> 'a) \<Rightarrow> 'a list \<Rightarrow> 'b list \<Rightarrow> error + 'a list" where
  "inplace f xs ys =
     (if length ys = length xs then Inr (map2 f xs ys)
      else if length ys = 1 then Inr (map (\<lambda>x. f x (hd ys)) xs)
      else Inl (ValueError ''non-broadcastable output operand''))"

definition np_clip :: "real \<Rightarrow> real \<Rightarrow> real \<Rightarrow> real" where
  "np_clip x lo hi = min (max x lo) hi"

section \<open>External collaborators\<close>

text \<open>
  The classes and functions the fitter imports from other modules (\<^verbatim>\<open>CubicSpline\<close>,
  \<^verbatim>\<open>MedZFitter\<close>, the red-sequence structure's \<^verbatim>\<open>mstar\<close>) and from libraries
  (\<^verbatim>\<open>esutil.stat.histogram\<close>, \<^verbatim>\<open>scipy.optimize.fmin\<close>, \<^verbatim>\<open>np.random.normal\<close>) are
  parameters of the model, collected in one record. A spline is built from nodes and
  values (which may fail) and is then evaluated pointwise; the histogram takes the data,
  \<^verbatim>\<open>min\<close>, \<^verbatim>\<open>max\<close> and \<^verbatim>\<open>binsize\<close> and returns one count per bin; the minimiser takes
  the objective and the start vector; the random generator takes a size and its own
  state.
\<close>

record env =
  CubicSpline :: "real list \<Rightarrow> real list \<Rightarrow> error + (real \<Rightarrow> real)"
  histogram :: "real list \<Rightarrow> real \<Rightarrow> real \<Rightarrow> real \<Rightarrow> error + nat list"
  zredstr_mstar :: "real \<Rightarrow> real"
  fmin :: "(real list \<Rightarrow> error + real) \<Rightarrow> real list \<Rightarrow> error + real list"
  MedZFitter_fit ::
    "real list \<Rightarrow> real list \<Rightarrow> real list \<Rightarrow> real list \<Rightarrow> real \<Rightarrow> real \<Rightarrow> error + real list"
  random_normal :: "nat \<Rightarrow> nat \<Rightarrow> real list \<times> nat"

section \<open>RedmagicParameterFitter\<close>

text \<open>The attributes of the fitter object (\<^verbatim>\<open>self._z\<close> is \<open>self_z\<close>, and so on).\<close>

record fitter =
  self_nodes :: "real list"
  self_corrnodes :: "real list"
  self_z :: "real list"
  self_z_err :: "real list"
  self_zredmagic :: "real list"
  self_zredmagic_e :: "real list"
  self_chisq :: "real list"
  self_mstar :: "real list"
  self_zcal :: "real list"
  self_zcal_err :: "real list"
  self_refmag :: "real list"
  self_randomn :: "real list"
  self_zmax :: "real list"
  self_etamin :: real
  self_n0 :: real
  self_volume :: "real list"
  self_zrange :: "real list"
  self_zbinsize :: real
  self_ab_use :: "nat list option"
  self_maxchi :: real
  self_afterburner :: bool

text \<open>\<^verbatim>\<open>__init__\<close>: the arrays are stored, the corrected redshifts start as copies of
  the raw ones, and the sizes are checked in the source's order.\<close>

definition init ::
  "real list \<Rightarrow> real list \<Rightarrow> real list \<Rightarrow> real list \<Rightarrow> real list \<Rightarrow> real list \<Rightarrow>
   real list \<Rightarrow> real list \<Rightarrow> real list \<Rightarrow> real list \<Rightarrow> real list \<Rightarrow> real \<Rightarrow> real \<Rightarrow>
   real list \<Rightarrow> real list \<Rightarrow> real \<Rightarrow> real \<Rightarrow> nat list option \<Rightarrow> error + fitter" where
  "init nodes corrnodes z z_err chisq mstar zcal zcal_err refmag randomn zmax etamin n0
        volume zrange zbinsize maxchi ab_use =
     (if length z \<noteq> length z_err then Inl (ValueError ''Number of z must be equal to z_err'')
      else if length z \<noteq> length chisq then Inl (ValueError ''Number of z must be equal to chisq'')
      else if length z \<noteq> length mstar then Inl (ValueError ''Number of z must be equal to mstar'')
      else if length z \<noteq> length zcal then Inl (ValueError ''Number of z must be equal to zcal'')
      else if length z \<noteq> length zcal_err
        then Inl (ValueError ''Number of z must be equal to zcal_err'')
      else if length z \<noteq> length refmag
        then Inl (ValueError ''Number of z must be equal to refmag'')
      else if length z \<noteq> length randomn
        then Inl (ValueError ''Number of z must be equal to randomn'')
      else if length zrange \<noteq> 2 then Inl (ValueError ''zrange must have 2 elements'')
      else Inr \<lparr> self_nodes = nodes, self_corrnodes = corrnodes, self_z = z,
                 self_z_err = z_err, self_zredmagic = z, self_zredmagic_e = z_err,
                 self_chisq = chisq, self_mstar = mstar, self_zcal = zcal,
                 self_zcal_err = zcal_err, self_refmag = refmag, self_randomn = randomn,
                 self_zmax = zmax, self_etamin = etamin, self_n0 = n0,
                 self_volume = volume, self_zrange = zrange, self_zbinsize = zbinsize,
                 self_ab_use = ab_use, self_maxchi = maxchi, self_afterburner = False \<rparr>)"

subsection \<open>The cost function \<^verbatim>\<open>__call__\<close>\<close>

text \<open>Lines 232-234: the threshold per galaxy, from the spline at the raw redshift.\<close>

definition chi2max :: "env \<Rightarrow> fitter \<Rightarrow> real list \<Rightarrow> error + real list" where
  "chi2max env s pars =
     bindE (CubicSpline env (self_nodes s) pars) (\<lambda>spl.
       Inr (map (\<lambda>x. np_clip (spl x) 0.1 (self_maxchi s)) (self_z s)))"

text \<open>Line 236: the sampled redshifts.\<close>

definition zsamp :: "fitter \<Rightarrow> error + real list" where
  "zsamp s =
     bindE (broadcast (\<lambda>r e. r * e) (self_randomn s) (self_zredmagic_e s)) (\<lambda>re.
       broadcast (\<lambda>a b. a + b) re (self_zredmagic s))"

text \<open>Lines 238-240: the indices of the galaxies that pass the three cuts.\<close>

definition selection :: "fitter \<Rightarrow> real list \<Rightarrow> error + nat list" where
  "selection s c2m =
     bindE (broadcast (\<lambda>a b. a < b) (self_chisq s) c2m) (\<lambda>m1.
     bindE (broadcast (\<lambda>a b. a < b) (self_refmag s)
              (map (\<lambda>m. m - 2.5 * log 10 (self_etamin s)) (self_mstar s))) (\<lambda>m2.
     bindE (broadcast (\<lambda>a b. a \<and> b) m1 m2) (\<lambda>m12.
     bindE (broadcast (\<lambda>a b. a < b) (self_zredmagic s) (self_zmax s)) (\<lambda>m3.
     bindE (broadcast (\<lambda>a b. a \<and> b) m12 m3) (\<lambda>mask.
       Inr (np_where mask))))))"

text \<open>Lines 247-256: histogram, density, its expected error and the sum of squares.
  The constructor has checked that \<^verbatim>\<open>_zrange\<close> has two elements.\<close>

definition density_cost :: "env \<Rightarrow> fitter \<Rightarrow> real list \<Rightarrow> error + real" where
  "density_cost env s data =
     bindE (histogram env data (self_zrange s ! 0) (self_zrange s ! 1 - 0.0001)
              (self_zbinsize s)) (\<lambda>h.
     bindE (broadcast (\<lambda>a b. a / b) (map real h) (self_volume s)) (\<lambda>den.
     let den_err = map (\<lambda>v. sqrt (self_n0 s * 0.0001 * v) / v) (self_volume s) in
     bindE (broadcast (\<lambda>a b. a / b) (map (\<lambda>d. d - self_n0 s * 0.0001) den) den_err) (\<lambda>q.
       Inr (sum_list (map (\<lambda>x. x ^ 2) q)))))"

text \<open>The value \<^verbatim>\<open>__call__\<close> returns.\<close>

definition cost :: "env \<Rightarrow> fitter \<Rightarrow> real list \<Rightarrow> error + real" where
  "cost env s pars =
     bindE (chi2max env s pars) (\<lambda>c2m.
     bindE (zsamp s) (\<lambda>zs.
     bindE (selection s c2m) (\<lambda>gd.
       if length gd = 0 then Inr 100000000000
       else bindE (index_by zs gd) (\<lambda>data. density_cost env s data))))"

text \<open>\<^verbatim>\<open>__call__\<close> as a method: its value, and the object after the call. The body
  assigns to no attribute.\<close>

definition call :: "env \<Rightarrow> fitter \<Rightarrow> real list \<Rightarrow> (error + real) \<times> fitter" where
  "call env s pars = (cost env s pars, s)"

subsection \<open>\<^verbatim>\<open>fit\<close>\<close>

text \<open>
  \<^verbatim>\<open>fit(p0_cval, biaspars=None, eratiopars=None, afterburner=False)\<close> assigns to
  attributes before it can raise, so the model returns the outcome together with the
  object as the call leaves it, also when the outcome is an exception. The steps are
  the source's: the check of \<^verbatim>\<open>_ab_use\<close> (line 146), the flag (line 149), the corrected
  redshifts (lines 150-162), \<^verbatim>\<open>_mstar\<close> (line 165) and the minimiser (line 167), which
  is handed the object itself as the objective.
\<close>

definition set_corrected ::
  "env \<Rightarrow> fitter \<Rightarrow> real list option \<Rightarrow> real list option \<Rightarrow> bool \<Rightarrow> (error + unit) \<times> fitter" where
  "set_corrected env s biaspars eratiopars afterburner =
     (if afterburner then
        (if biaspars = None \<or> eratiopars = None
         then (Inl (RuntimeError ''Must set biaspars, eratiopars if using the afterburner''), s)
         else
           (case CubicSpline env (self_corrnodes s) (the biaspars) of
              Inl e \<Rightarrow> (Inl e, s)
            | Inr spl \<Rightarrow>
                (case broadcast (\<lambda>a b. a - b) (self_z s) (map spl (self_z s)) of
                   Inl e \<Rightarrow> (Inl e, s)
                 | Inr zr \<Rightarrow>
                     (let s1 = s\<lparr>self_zredmagic := zr\<rparr> in
                      case CubicSpline env (self_corrnodes s1) (the eratiopars) of
                        Inl e \<Rightarrow> (Inl e, s1)
                      | Inr spl2 \<Rightarrow>
                          (case broadcast (\<lambda>a b. a * b) (self_z_err s1) (map spl2 (self_z s1)) of
                             Inl e \<Rightarrow> (Inl e, s1)
                           | Inr ze \<Rightarrow> (Inr (), s1\<lparr>self_zredmagic_e := ze\<rparr>))))))
      else
        (case slice_assign (self_zredmagic s) (self_z s) of
           Inl e \<Rightarrow> (Inl e, s)
         | Inr zr \<Rightarrow>
             (let s1 = s\<lparr>self_zredmagic := zr\<rparr> in
              case slice_assign (self_zredmagic_e s1) (self_z_err s1) of
                Inl e \<Rightarrow> (Inl e, s1)
              | Inr ze \<Rightarrow> (Inr (), s1\<lparr>self_zredmagic_e := ze\<rparr>))))"

definition fit ::
  "env \<Rightarrow> fitter \<Rightarrow> real list \<Rightarrow> real list option \<Rightarrow> real list option \<Rightarrow> bool \<Rightarrow>
   (error + real list) \<times> fitter" where
  "fit env s p0_cval biaspars eratiopars afterburner =
     (if self_ab_use s = None \<and> afterburner
      then (Inl (RuntimeError ''Must set afterburner_use if using the afterburner''), s)
      else
        (let s1 = s\<lparr>self_afterburner := afterburner\<rparr> in
         case set_corrected env s1 biaspars eratiopars afterburner of
           (Inl e, s2) \<Rightarrow> (Inl e, s2)
         | (Inr u, s2) \<Rightarrow>
             (let s3 = s2\<lparr>self_mstar := map (zredstr_mstar env) (self_zredmagic s2)\<rparr> in
              (fmin env (\<lambda>pars. fst (call env s3 pars)) p0_cval, s3))))"

subsection \<open>\<^verbatim>\<open>fit_bias_eratio\<close>\<close>

text \<open>
  \<^verbatim>\<open>fit_bias_eratio(cval, p0_bias, p0_eratio)\<close> indexes the arrays with \<^verbatim>\<open>self._ab_use\<close>
  and has no check of its own that the index set was given. When \<^verbatim>\<open>_ab_use\<close> is
  \<^verbatim>\<open>None\<close>, numpy reads \<^verbatim>\<open>a[None]\<close> as \<^verbatim>\<open>a[np.newaxis]\<close>: the same elements with a leading
  axis of length one, so the comparisons go through on arrays of shape \<open>(1, n)\<close>, and
  \<^verbatim>\<open>np.where\<close> of the two-dimensional mask returns two index arrays, which the
  one-element unpacking \<^verbatim>\<open>ab_gd, = np.where(ab_mask)\<close> refuses with a ValueError.
\<close>

definition index_ab :: "nat list option \<Rightarrow> 'a list \<Rightarrow> error + 'a list" where
  "index_ab ab xs = (case ab of None \<Rightarrow> Inr xs | Some idx \<Rightarrow> index_by xs idx)"

definition fit_bias_eratio ::
  "env \<Rightarrow> fitter \<Rightarrow> real list \<Rightarrow> real list \<Rightarrow> real list \<Rightarrow> error + (real list \<times> real list)" where
  "fit_bias_eratio env s cval p0_bias p0_eratio =
     bindE (CubicSpline env (self_nodes s) cval) (\<lambda>spl.
     let c2m = map (\<lambda>x. np_clip (spl x) 0.1 (self_maxchi s)) (self_z s);
         ab = self_ab_use s in
     bindE (index_ab ab (self_chisq s)) (\<lambda>chisq_ab.
     bindE (index_ab ab c2m) (\<lambda>c2m_ab.
     bindE (broadcast (\<lambda>a b. a < b) chisq_ab c2m_ab) (\<lambda>m1.
     bindE (index_ab ab (self_refmag s)) (\<lambda>refmag_ab.
     bindE (index_ab ab (self_mstar s)) (\<lambda>mstar_ab.
     bindE (broadcast (\<lambda>a b. a < b) refmag_ab
              (map (\<lambda>m. m - 2.5 * log 10 (self_etamin s)) mstar_ab)) (\<lambda>m2.
     bindE (broadcast (\<lambda>a b. a \<and> b) m1 m2) (\<lambda>ab_mask.
     bindE (index_ab ab (self_zredmagic s)) (\<lambda>zr_ab.
     bindE (if length (self_zmax s) > 1
            then bindE (index_ab ab (self_zmax s)) (\<lambda>zmax_ab.
                   broadcast (\<lambda>a b. a < b) zr_ab zmax_ab)
            else broadcast (\<lambda>a b. a < b) zr_ab (self_zmax s)) (\<lambda>m3.
     bindE (inplace (\<lambda>a b. a \<and> b) ab_mask m3) (\<lambda>ab_mask2.
     bindE (case ab of
              None \<Rightarrow> Inl (ValueError ''too many values to unpack (expected 1)'')
            | Some idx \<Rightarrow> index_by idx (np_where ab_mask2)) (\<lambda>ab_gd.
     bindE (index_by (self_z s) ab_gd) (\<lambda>z_gd.
     bindE (index_by (self_zcal s) ab_gd) (\<lambda>zcal_gd.
     bindE (broadcast (\<lambda>a b. a - b) z_gd zcal_gd) (\<lambda>dz.
     bindE (MedZFitter_fit env (self_corrnodes s) z_gd dz p0_bias (- 0.1) 0.1) (\<lambda>pars_bias.
     bindE (index_by (self_z_err s) ab_gd) (\<lambda>z_err_gd.
     bindE (broadcast (\<lambda>a b. a / b) (map (\<lambda>d. 1.4826 * \<bar>d\<bar>) dz) z_err_gd) (\<lambda>y.
     bindE (MedZFitter_fit env (self_corrnodes s) z_gd y p0_eratio 0.5 1.5) (\<lambda>pars_eratio.
       Inr (pars_bias, pars_eratio))))))))))))))))))))"

section \<open>RedmagicCalibrator.run: the parts before the fit\<close>

text \<open>
  \<^verbatim>\<open>run\<close> reads catalogs, matches spectra and writes files; the model keeps the
  numerical steps that prepare the fit. The galaxy catalog is a structured array, one
  record per galaxy; \<^verbatim>\<open>gals.zuse\<close> is the column \<open>map gal_zuse gals\<close>. The
  configuration holds the values the steps read.
\<close>

record galaxy =
  gal_zuse :: real
  gal_zuse_e :: real
  gal_chisq :: real
  gal_refmag :: real
  gal_zcal :: real
  gal_zcal_e :: real

record config =
  redmagic_zrange :: "real list"
  redmagic_calib_zbinsize :: real
  redmagic_etas :: "real list"
  redmagic_n0s :: "real list"
  redmagic_calib_chisqcut :: real
  redmagic_calib_pz_integrate :: bool

text \<open>Lines 351-374: the redshift range padded to whole bins, the cushions, and the
  cut of the input galaxies. \<^verbatim>\<open>np.min\<close> of an empty list of thresholds raises.\<close>

definition prefilter :: "env \<Rightarrow> config \<Rightarrow> galaxy list \<Rightarrow> error + galaxy list" where
  "prefilter env conf gals =
     (let mstar_init = map (\<lambda>g. zredstr_mstar env (gal_zuse g)) gals in
      bindE (get (redmagic_zrange conf) 0) (\<lambda>c0.
      bindE (get (redmagic_zrange conf) 1) (\<lambda>z1.
      let nbin = \<lceil>(z1 - c0) / redmagic_calib_zbinsize conf\<rceil>;
          c1 = of_int nbin * redmagic_calib_zbinsize conf + c0;
          lstar_cushion = 0.05;
          z_cushion = 0.05;
          cut_zrange = (c0 - z_cushion, c1 + z_cushion)
      in if redmagic_etas conf = []
         then Inl (ValueError ''zero-size array to reduction operation minimum'')
         else
           (let minlstar = max (Min (set (redmagic_etas conf)) - lstar_cushion) 0.1;
                use = filter (\<lambda>i. gal_zuse (gals ! i) > fst cut_zrange \<and>
                                   gal_zuse (gals ! i) < snd cut_zrange \<and>
                                   gal_chisq (gals ! i) < redmagic_calib_chisqcut conf \<and>
                                   gal_refmag (gals ! i) < mstar_init ! i - 2.5 * log 10 minlstar)
                        [0..<length gals]
            in if length use = 0
               then Inl (RuntimeError ''No galaxies in redshift range/chisq range/eta range.'')
               else Inr (map (\<lambda>i. gals ! i) use)))))"

text \<open>Lines 506-509: the normal draws of one calibration run, taken once, before the
  fitter is built; \<open>g\<close> is the state of the generator.\<close>

definition draw_randomn :: "env \<Rightarrow> config \<Rightarrow> nat \<Rightarrow> nat \<Rightarrow> real list \<times> nat" where
  "draw_randomn env conf n g =
     (if redmagic_calib_pz_integrate conf then random_normal env n g
      else (replicate n 0, g))"

text \<open>Lines 534-542: the redshift window of node \<open>j\<close>.\<close>

definition node_zrange :: "real list \<Rightarrow> real \<Rightarrow> nat \<Rightarrow> real \<times> real" where
  "node_zrange nodes zbinsize j =
     (let zrange = (nodes ! j - zbinsize / 2, nodes ! j + zbinsize / 2)
      in if j = 0 then (nodes ! j, nodes ! j + zbinsize)
         else if j = length nodes - 1 then (nodes ! j - zbinsize, nodes ! j)
         else zrange)"

text \<open>\<^verbatim>\<open>np.argsort\<close>: the indices in ascending order of the values (the order among
  equal values does not change the value read at a position). \<^verbatim>\<open>np.searchsorted\<close> on an
  ascending array: the first position whose entry is not below the value, the size of
  the array when there is none.\<close>

definition np_argsort :: "real list \<Rightarrow> nat list" where
  "np_argsort xs = sort_key (\<lambda>i. xs ! i) [0..<length xs]"

definition np_searchsorted :: "real list \<Rightarrow> real \<Rightarrow> nat" where
  "np_searchsorted a v = length (takeWhile (\<lambda>x. x < v) a)"

text \<open>Lines 545-551: the starting threshold of node \<open>j\<close>; \<open>red_poss\<close> are the indices
  of the possible galaxies, \<open>test_vol\<close> the volume at each node (one entry per node, so
  \<open>j\<close> is in its range), \<open>n0\<close> the target density of the run. The index \<^verbatim>\<open>ind\<close> is used
  as it comes out of the search.\<close>

definition node_cmaxval ::
  "galaxy list \<Rightarrow> nat list \<Rightarrow> real list \<Rightarrow> real \<Rightarrow> real list \<Rightarrow> real \<Rightarrow> nat \<Rightarrow> error + real" where
  "node_cmaxval gals red_poss test_vol n0 nodes zbinsize j =
     (let zrange = node_zrange nodes zbinsize j in
      bindE (index_by (map gal_zuse gals) red_poss) (\<lambda>zp.
      let u = np_where (map (\<lambda>x. x > fst zrange \<and> x < snd zrange) zp) in
      bindE (index_by red_poss u) (\<lambda>ru.
      bindE (index_by (map gal_chisq gals) ru) (\<lambda>cs.
      let st = np_argsort cs;
          test_den = map (\<lambda>k. real k / test_vol ! j) [0..<length u];
          ind = np_searchsorted test_den (n0 * 0.0001) in
      bindE (get st ind) (\<lambda>a.
      bindE (get u a) (\<lambda>b.
      bindE (get red_poss b) (\<lambda>c.
        get (map gal_chisq gals) c)))))))"

text \<open>The loop over the nodes (line 534): the first exception ends it.\<close>

fun cmaxvals_from ::
  "galaxy list \<Rightarrow> nat list \<Rightarrow> real list \<Rightarrow> real \<Rightarrow> real list \<Rightarrow> real \<Rightarrow> nat list \<Rightarrow>
   error + real list" where
  "cmaxvals_from gals red_poss test_vol n0 nodes zbinsize [] = Inr []"
| "cmaxvals_from gals red_poss test_vol n0 nodes zbinsize (j # js) =
     bindE (node_cmaxval gals red_poss test_vol n0 nodes zbinsize j) (\<lambda>c.
     bindE (cmaxvals_from gals red_poss test_vol n0 nodes zbinsize js) (\<lambda>cs.
       Inr (c # cs)))"

definition initial_cmaxvals ::
  "galaxy list \<Rightarrow> nat list \<Rightarrow> real list \<Rightarrow> real \<Rightarrow> real list \<Rightarrow> real \<Rightarrow> error + real list" where
  "initial_cmaxvals gals red_poss test_vol n0 nodes zbinsize =
     cmaxvals_from gals red_poss test_vol n0 nodes zbinsize [0..<length nodes]"

section \<open>Effects: the object and the random generator\<close>

text \<open>
  To state what an evaluation of the cost function does to the fitter object and to
  numpy's global random generator, \<^verbatim>\<open>__call__\<close> is embedded a second time, statement
  by statement, as a program over both. A statement reads an attribute of \<^verbatim>\<open>self\<close>,
  computes on arrays (and may raise), assigns an attribute, or draws from the
  generator; an exception ends the program with the object and the generator as they
  are at that point. Building and evaluating a spline and taking a histogram are
  library calls on their arguments and are taken to touch neither.
\<close>

record world =
  w_self :: fitter
  w_rng :: nat

type_synonym 'a prog = "world \<Rightarrow> (error + 'a) \<times> world"

definition ret :: "'a \<Rightarrow> 'a prog" where
  "ret x w = (Inr x, w)"

definition bindW :: "'a prog \<Rightarrow> ('a \<Rightarrow> 'b prog) \<Rightarrow> 'b prog" where
  "bindW p k w = (case p w of (Inl e, w1) \<Rightarrow> (Inl e, w1) | (Inr v, w1) \<Rightarrow> k v w1)"

definition lift :: "error + 'a \<Rightarrow> 'a prog" where
  "lift m w = (m, w)"

definition attr :: "(fitter \<Rightarrow> 'a) \<Rightarrow> 'a prog" where
  "attr f w = (Inr (f (w_self w)), w)"

definition assign :: "(fitter \<Rightarrow> fitter) \<Rightarrow> unit prog" where
  "assign upd w = (Inr (), w\<lparr>w_self := upd (w_self w)\<rparr>)"

definition np_random_normal :: "env \<Rightarrow> nat \<Rightarrow> real list prog" where
  "np_random_normal env n w =
     (Inr (fst (random_normal env n (w_rng w))),
      w\<lparr>w_rng := snd (random_normal env n (w_rng w))\<rparr>)"

text \<open>\<^verbatim>\<open>__call__\<close>, lines 232-258, one statement after the other.\<close>

definition call_prog :: "env \<Rightarrow> real list \<Rightarrow> real prog" where
  "call_prog env pars =
     bindW (attr self_nodes) (\<lambda>nodes.
     bindW (lift (CubicSpline env nodes pars)) (\<lambda>spl.
     bindW (attr self_z) (\<lambda>z.
     bindW (attr self_maxchi) (\<lambda>maxchi.
     let c2m = map (\<lambda>x. np_clip (spl x) 0.1 maxchi) z in
     bindW (attr self_randomn) (\<lambda>randomn.
     bindW (attr self_zredmagic_e) (\<lambda>zredmagic_e.
     bindW (attr self_zredmagic) (\<lambda>zredmagic.
     bindW (lift (broadcast (\<lambda>r e. r * e) randomn zredmagic_e)) (\<lambda>re.
     bindW (lift (broadcast (\<lambda>a b. a + b) re zredmagic)) (\<lambda>zs.
     bindW (attr self_chisq) (\<lambda>chisq.
     bindW (lift (broadcast (\<lambda>a b. a < b) chisq c2m)) (\<lambda>m1.
     bindW (attr self_refmag) (\<lambda>refmag.
     bindW (attr self_mstar) (\<lambda>mstar.
     bindW (attr self_etamin) (\<lambda>etamin.
     bindW (lift (broadcast (\<lambda>a b. a < b) refmag
                    (map (\<lambda>m. m - 2.5 * log 10 etamin) mstar))) (\<lambda>m2.
     bindW (lift (broadcast (\<lambda>a b. a \<and> b) m1 m2)) (\<lambda>m12.
     bindW (attr self_zmax) (\<lambda>zmax.
     bindW (lift (broadcast (\<lambda>a b. a < b) zredmagic zmax)) (\<lambda>m3.
     bindW (lift (broadcast (\<lambda>a b. a \<and> b) m12 m3)) (\<lambda>mask.
     let gd = np_where mask in
     if length gd = 0 then ret 100000000000
     else
       bindW (lift (index_by zs gd)) (\<lambda>data.
       bindW (attr self_zrange) (\<lambda>zrange.
       bindW (attr self_zbinsize) (\<lambda>zbinsize.
       bindW (lift (histogram env data (zrange ! 0) (zrange ! 1 - 0.0001) zbinsize)) (\<lambda>h.
       bindW (attr self_volume) (\<lambda>volume.
       bindW (lift (broadcast (\<lambda>a b. a / b) (map real h) volume)) (\<lambda>den.
       bindW (attr self_n0) (\<lambda>n0.
       let den_err = map (\<lambda>v. sqrt (n0 * 0.0001 * v) / v) volume in
       bindW (lift (broadcast (\<lambda>a b. a / b) (map (\<lambda>d. d - n0 * 0.0001) den) den_err)) (\<lambda>q.
         ret (sum_list (map (\<lambda>x. x ^ 2) q)))))))))))))))))))))))))))))"

text \<open>Line 149 of \<^verbatim>\<open>fit\<close>, an assignment to the object, and lines 506-509 of
  \<^verbatim>\<open>run\<close>, the one place where the calibration draws from the generator.\<close>

definition set_afterburner_prog :: "bool \<Rightarrow> unit prog" where
  "set_afterburner_prog afterburner = assign (\<lambda>s. s\<lparr>self_afterburner := afterburner\<rparr>)"

definition randomn_prog :: "env \<Rightarrow> config \<Rightarrow> nat \<Rightarrow> real list prog" where
  "randomn_prog env conf n =
     (if redmagic_calib_pz_integrate conf then np_random_normal env n
      else ret (replicate n 0))"

text \<open>A run of evaluations of the cost function, one after the other, as a minimiser
  makes them: the values, and the object and generator at the end.\<close>

fun eval_all :: "env \<Rightarrow> real list list \<Rightarrow> world \<Rightarrow> (error + real) list \<times> world" where
  "eval_all env [] w = ([], w)"
| "eval_all env (p # ps) w =
     (case call_prog env p w of
        (r, w1) \<Rightarrow> (case eval_all env ps w1 of (rs, w2) \<Rightarrow> (r # rs, w2)))"

section \<open>Notions used to state the properties\<close>

text \<open>
  The sizes the constructor checks, together with the size of \<^verbatim>\<open>zmax\<close> (one value, or
  one per galaxy), which it does not check and the array operations need.
\<close>

definition wf_fitter :: "fitter \<Rightarrow> bool" where
  "wf_fitter s =
     (let n = length (self_z s) in
        length (self_z_err s) = n \<and> length (self_zredmagic s) = n \<and>
        length (self_zredmagic_e s) = n \<and> length (self_chisq s) = n \<and>
        length (self_mstar s) = n \<and> length (self_zcal s) = n \<and>
        length (self_zcal_err s) = n \<and> length (self_refmag s) = n \<and>
        length (self_randomn s) = n \<and> length (self_zrange s) = 2 \<and>
        (length (self_zmax s) = n \<or> length (self_zmax s) = 1))"

text \<open>The maximum redshift that applies to galaxy \<open>i\<close>.\<close>

definition zmax_of :: "fitter \<Rightarrow> nat \<Rightarrow> real" where
  "zmax_of s i = (if length (self_zmax s) = 1 then self_zmax s ! 0 else self_zmax s ! i)"

text \<open>Galaxy \<open>i\<close> passes the three cuts, for the threshold curve \<open>spl\<close>.\<close>

definition passes :: "(real \<Rightarrow> real) \<Rightarrow> fitter \<Rightarrow> nat \<Rightarrow> bool" where
  "passes spl s i =
     (self_chisq s ! i < np_clip (spl (self_z s ! i)) 0.1 (self_maxchi s) \<and>
      self_refmag s ! i < self_mstar s ! i - 2.5 * log 10 (self_etamin s) \<and>
      self_zredmagic s ! i < zmax_of s i)"

text \<open>The sampled redshift of galaxy \<open>i\<close>.\<close>

definition zsamp_of :: "fitter \<Rightarrow> nat \<Rightarrow> real" where
  "zsamp_of s i = self_randomn s ! i * self_zredmagic_e s ! i + self_zredmagic s ! i"

text \<open>The galaxies that pass, in catalog order.\<close>

definition survivors :: "(real \<Rightarrow> real) \<Rightarrow> fitter \<Rightarrow> nat list" where
  "survivors spl s = filter (passes spl s) [0..<length (self_z s)]"

text \<open>A reordering of the galaxies: \<open>p\<close> lists every index below \<open>n\<close> once, and each
  per-galaxy array \<^verbatim>\<open>a\<close> becomes \<^verbatim>\<open>a[p]\<close>. A single global \<^verbatim>\<open>zmax\<close> stays as it is.\<close>

definition is_permutation :: "nat list \<Rightarrow> nat \<Rightarrow> bool" where
  "is_permutation p n = (sort p = [0..<n])"

definition np_take :: "'a list \<Rightarrow> nat list \<Rightarrow> 'a list" where
  "np_take xs p = map (\<lambda>i. xs ! i) p"

definition permute_fitter :: "nat list \<Rightarrow> fitter \<Rightarrow> fitter" where
  "permute_fitter p s =
     s\<lparr> self_z := np_take (self_z s) p,
        self_z_err := np_take (self_z_err s) p,
        self_zredmagic := np_take (self_zredmagic s) p,
        self_zredmagic_e := np_take (self_zredmagic_e s) p,
        self_chisq := np_take (self_chisq s) p,
        self_mstar := np_take (self_mstar s) p,
        self_zcal := np_take (self_zcal s) p,
        self_zcal_err := np_take (self_zcal_err s) p,
        self_refmag := np_take (self_refmag s) p,
        self_randomn := np_take (self_randomn s) p,
        self_zmax := (if length (self_zmax s) = 1 then self_zmax s
                      else np_take (self_zmax s) p) \<rparr>"

text \<open>What the property of order-independence needs of the library's histogram: its
  counts depend on the data as a multiset.\<close>

definition hist_order_free :: "env \<Rightarrow> bool" where
  "hist_order_free env =
     (\<forall>xs ys lo hi b. mset xs = mset ys \<longrightarrow> histogram env xs lo hi b = histogram env ys lo hi b)"

text \<open>The possible galaxies whose redshift lies strictly inside a window, as the
  search of a node selects them (line 545).\<close>

definition window_galaxies :: "galaxy list \<Rightarrow> nat list \<Rightarrow> real \<times> real \<Rightarrow> nat list" where
  "window_galaxies gals red_poss r =
     filter (\<lambda>i. gal_zuse (gals ! i) > fst r \<and> gal_zuse (gals ! i) < snd r) red_poss"

section \<open>An instance of the collaborators\<close>

text \<open>
  Concrete collaborators, to evaluate the model at concrete inputs: a spline over one
  node (a constant) or two nodes (the straight line through the two values, which is
  the natural cubic spline of two points), a red-sequence magnitude that is constant, a
  minimiser that evaluates the objective at the start and returns the start, a median
  fitter that clips its start values, and a generator that returns zeros.
\<close>

definition small_spline :: "real list \<Rightarrow> real list \<Rightarrow> error + (real \<Rightarrow> real)" where
  "small_spline nodes vals =
     (case (nodes, vals) of
        ([a], [v]) \<Rightarrow> Inr (\<lambda>x. v)
      | ([a, b], [v, w]) \<Rightarrow>
          if a < b then Inr (\<lambda>x. v + (w - v) * (x - a) / (b - a))
          else Inl (ValueError ''nodes are not increasing'')
      | _ \<Rightarrow> Inl (ValueError ''nodes and values do not fit''))"

text \<open>Modelled from the spec: \<^verbatim>\<open>esutil.stat.histogram\<close> is a library function outside
  the repository. Section 4.3, step 5: the data are counted in equal-width bins that
  start at \<^verbatim>\<open>min\<close> and span the range up to \<^verbatim>\<open>max\<close>, one count per bin; data outside
  the range are not counted.\<close>

definition count_histogram :: "real list \<Rightarrow> real \<Rightarrow> real \<Rightarrow> real \<Rightarrow> error + nat list" where
  "count_histogram data lo hi binsize =
     (let nbin = nat \<lfloor>(hi - lo) / binsize\<rfloor> + 1 in
      Inr (map (\<lambda>b. length (filter (\<lambda>x. lo \<le> x \<and> x \<le> hi \<and> nat \<lfloor>(x - lo) / binsize\<rfloor> = b) data))
             [0..<nbin]))"

definition demo_env :: env where
  "demo_env =
     \<lparr> CubicSpline = small_spline,
       histogram = count_histogram,
       zredstr_mstar = (\<lambda>z. 20),
       fmin = (\<lambda>f p0. bindE (f p0) (\<lambda>c. Inr p0)),
       MedZFitter_fit = (\<lambda>nodes x y p0 lo hi. Inr (map (\<lambda>v. np_clip v lo hi) p0)),
       random_normal = (\<lambda>n g. (replicate n 0, Suc g)) \<rparr>"

text \<open>Three galaxies at redshifts 0.2, 0.3 and 0.4 with chi-square 1, 5 and 30, one
  global \<^verbatim>\<open>zmax\<close>, two redshift bins of width 0.1, two nodes, and a held-out set of
  two: the fitter as its constructor leaves it.\<close>

definition demo_fitter :: fitter where
  "demo_fitter =
     \<lparr> self_nodes = [0.2, 0.4], self_corrnodes = [0.2, 0.4],
       self_z = [0.2, 0.3, 0.4], self_z_err = [0.01, 0.01, 0.01],
       self_zredmagic = [0.2, 0.3, 0.4], self_zredmagic_e = [0.01, 0.01, 0.01],
       self_chisq = [1, 5, 30], self_mstar = [20, 20, 20],
       self_zcal = [0.21, 0.3, - 1], self_zcal_err = [0.001, 0.001, - 1],
       self_refmag = [19, 19, 19], self_randomn = [0, 0, 0],
       self_zmax = [0.5], self_etamin = 1, self_n0 = 1,
       self_volume = [10000, 10000], self_zrange = [0.2, 0.4], self_zbinsize = 0.1,
       self_ab_use = Some [0, 1], self_maxchi = 20, self_afterburner = False \<rparr>"

text \<open>The straight line through \<open>v\<close> at node 0.2 and \<open>w\<close> at node 0.4.\<close>

definition demo_line :: "real \<Rightarrow> real \<Rightarrow> real \<Rightarrow> real" where
  "demo_line v w x = v + (w - v) * (x - 0.2) / (0.4 - 0.2)"

text \<open>The same fitter after a fit with the afterburner: a bias of 0.01 and an error
  ratio of 2 at both correction nodes.\<close>

definition demo_fitter_ab :: fitter where
  "demo_fitter_ab =
     demo_fitter\<lparr> self_zredmagic := [0.19, 0.29, 0.39],
                  self_zredmagic_e := [0.02, 0.02, 0.02],
                  self_afterburner := True \<rparr>"

text \<open>The same fitter built without a held-out index set.\<close>

definition demo_fitter_no_ab :: fitter where
  "demo_fitter_no_ab = demo_fitter\<lparr> self_ab_use := None \<rparr>"

text \<open>A catalog of two galaxies near redshift 0.21, and a configuration with one
  calibration run.\<close>

definition demo_gals :: "galaxy list" where
  "demo_gals =
     [\<lparr> gal_zuse = 0.21, gal_zuse_e = 0.01, gal_chisq = 1, gal_refmag = 19,
        gal_zcal = 0.21, gal_zcal_e = 0.001 \<rparr>,
      \<lparr> gal_zuse = 0.21, gal_zuse_e = 0.01, gal_chisq = 2, gal_refmag = 19,
        gal_zcal = - 1, gal_zcal_e = - 1 \<rparr>]"

definition demo_conf :: config where
  "demo_conf =
     \<lparr> redmagic_zrange = [0.2, 0.4], redmagic_calib_zbinsize = 0.02,
       redmagic_etas = [1], redmagic_n0s = [1], redmagic_calib_chisqcut = 20,
       redmagic_calib_pz_integrate = False \<rparr>"

text \<open>A fitter after an afterburner fit in which raw and corrected redshifts decide
  differently: the second and third galaxy have a chi-square between the thresholds at
  their corrected and at their raw redshift, and the global \<^verbatim>\<open>zmax\<close> lies between the
  corrected and the raw redshift of the third.\<close>

definition demo_fitter_asym :: fitter where
  "demo_fitter_asym =
     demo_fitter\<lparr> self_zredmagic := [0.19, 0.29, 0.39],
                  self_zredmagic_e := [0.02, 0.02, 0.02],
                  self_chisq := [1, 14.7, 19.9],
                  self_zmax := [0.395],
                  self_afterburner := True \<rparr>"

text \<open>The demo fitter with a generator in its initial state.\<close>

definition demo_world :: world where
  "demo_world = \<lparr> w_self = demo_fitter, w_rng = 0 \<rparr>"

section \<open>Array operations on arrays of fitting sizes\<close>

lemma bindE_Inr: "bindE (Inr v) f = f v"
  by (simp add: bindE_def)

lemma bindE_Inl: "bindE (Inl e) f = Inl e"
  by (simp add: bindE_def)

lemma map2_nth:
  assumes "length xs = n" "length ys = n"
  shows "map2 f xs ys = map (\<lambda>i. f (xs ! i) (ys ! i)) [0..<n]"
  using assms by (intro nth_equalityI) auto

lemma broadcast_same:
  "length xs = n \<Longrightarrow> length ys = n \<Longrightarrow>
   broadcast f xs ys = Inr (map (\<lambda>i. f (xs ! i) (ys ! i)) [0..<n])"
  by (simp add: broadcast_def map2_nth)

lemma broadcast_scalar:
  assumes "length xs = n" "length ys = 1"
  shows "broadcast f xs ys = Inr (map (\<lambda>i. f (xs ! i) (ys ! 0)) [0..<n])"
proof (cases "n = 1")
  case True
  then show ?thesis using assms by (simp add: broadcast_same)
next
  case False
  have "ys \<noteq> []" using assms by auto
  then have h: "hd ys = ys ! 0" by (simp add: hd_conv_nth)
  have "map (\<lambda>x. f x (ys ! 0)) xs = map (\<lambda>i. f (xs ! i) (ys ! 0)) [0..<n]"
    using assms by (intro nth_equalityI) auto
  then show ?thesis using False assms h by (simp add: broadcast_def)
qed

lemma broadcast_maps:
  "broadcast f (map P xs) (map Q xs) = Inr (map (\<lambda>i. f (P i) (Q i)) xs)"
proof -
  have "map2 f (map P xs) (map Q xs) = map (\<lambda>i. f (P i) (Q i)) xs"
    by (induction xs) auto
  then show ?thesis by (simp add: broadcast_def)
qed

lemma np_where_map: "np_where (map P [0..<n]) = filter P [0..<n]"
  by (auto simp: np_where_def intro: filter_cong)

lemma index_by_map:
  "list_all (\<lambda>i. i < n) idx \<Longrightarrow> index_by (map f [0..<n]) idx = Inr (map f idx)"
  by (auto simp: index_by_def list_all_iff)

lemma list_all_filter_upt: "list_all (\<lambda>i. i < n) (filter P [0..<n])"
  by (simp add: list_all_iff)

section \<open>The cost function on a well-formed fitter\<close>

lemma zsamp_wf:
  assumes "wf_fitter s"
  shows "zsamp s = Inr (map (zsamp_of s) [0..<length (self_z s)])"
proof -
  let ?n = "length (self_z s)"
  have l: "length (self_randomn s) = ?n" "length (self_zredmagic_e s) = ?n"
    "length (self_zredmagic s) = ?n"
    using assms by (simp_all add: wf_fitter_def Let_def)
  show ?thesis
    unfolding zsamp_def
    by (simp add: broadcast_same[OF l(1) l(2)] bindE_Inr
        broadcast_same[where n = ?n] l zsamp_of_def)
qed

lemma zmax_cut_wf:
  assumes "wf_fitter s"
  shows "broadcast (\<lambda>a b. a < b) (self_zredmagic s) (self_zmax s) =
         Inr (map (\<lambda>i. self_zredmagic s ! i < zmax_of s i) [0..<length (self_z s)])"
proof (cases "length (self_zmax s) = 1")
  case True
  have "length (self_zredmagic s) = length (self_z s)"
    using assms by (simp add: wf_fitter_def Let_def)
  from broadcast_scalar[OF this True] show ?thesis
    using True by (simp add: zmax_of_def)
next
  case False
  then have "length (self_zredmagic s) = length (self_z s)"
    "length (self_zmax s) = length (self_z s)"
    using assms by (auto simp: wf_fitter_def Let_def)
  from broadcast_same[OF this] show ?thesis
    using False by (simp add: zmax_of_def)
qed

lemma selection_wf:
  assumes "wf_fitter s"
  shows "selection s (map (\<lambda>x. np_clip (spl x) 0.1 (self_maxchi s)) (self_z s)) =
         Inr (survivors spl s)"
proof -
  let ?n = "length (self_z s)"
  have l: "length (self_chisq s) = ?n" "length (self_refmag s) = ?n"
    "length (self_mstar s) = ?n"
    using assms by (simp_all add: wf_fitter_def Let_def)
  have m1: "broadcast (\<lambda>a b. a < b) (self_chisq s)
              (map (\<lambda>x. np_clip (spl x) 0.1 (self_maxchi s)) (self_z s)) =
            Inr (map (\<lambda>i. self_chisq s ! i < np_clip (spl (self_z s ! i)) 0.1 (self_maxchi s))
                   [0..<?n])"
    using l by (simp add: broadcast_same[where n = ?n])
  have m2: "broadcast (\<lambda>a b. a < b) (self_refmag s)
              (map (\<lambda>m. m - 2.5 * log 10 (self_etamin s)) (self_mstar s)) =
            Inr (map (\<lambda>i. self_refmag s ! i < self_mstar s ! i - 2.5 * log 10 (self_etamin s))
                   [0..<?n])"
    using l by (simp add: broadcast_same[where n = ?n])
  show ?thesis
    unfolding selection_def m1 m2 zmax_cut_wf[OF assms] bindE_Inr broadcast_maps np_where_map
    by (simp add: survivors_def passes_def[abs_def])
qed

lemma cost_wf:
  assumes "wf_fitter s" "CubicSpline env (self_nodes s) pars = Inr spl"
  shows "cost env s pars =
         (if survivors spl s = [] then Inr 100000000000
          else density_cost env s (map (zsamp_of s) (survivors spl s)))"
  unfolding cost_def chi2max_def assms(2) bindE_Inr zsamp_wf[OF assms(1)]
    selection_wf[OF assms(1)]
  by (simp add: index_by_map list_all_filter_upt bindE_Inr survivors_def)

lemma cost_spline_error:
  "CubicSpline env (self_nodes s) pars = Inl e \<Longrightarrow> cost env s pars = Inl e"
  by (simp add: cost_def chi2max_def bindE_Inl)

lemma wf_demo_fitter: "wf_fitter demo_fitter"
  by (simp add: wf_fitter_def demo_fitter_def)

lemma demo_spline:
  "CubicSpline demo_env (self_nodes demo_fitter) [v, w] = Inr (demo_line v w)"
  by (simp add: demo_env_def demo_fitter_def small_spline_def demo_line_def[abs_def])

lemma chi2max_ok:
  "CubicSpline env (self_nodes s) pars = Inr spl \<Longrightarrow>
   chi2max env s pars = Inr (map (\<lambda>x. np_clip (spl x) 0.1 (self_maxchi s)) (self_z s))"
  by (simp add: chi2max_def bindE_Inr)

lemma np_clip_bounds: "lo \<le> hi \<Longrightarrow> lo \<le> np_clip x lo hi \<and> np_clip x lo hi \<le> hi"
  by (auto simp: np_clip_def)

lemma sum_list_upt: "sum_list (map f [0..<n]) = (\<Sum>b<n. f b)"
  by (simp add: interv_sum_list_conv_sum_set_nat atLeast0LessThan)

lemma density_cost_ok:
  assumes "histogram env data (self_zrange s ! 0) (self_zrange s ! 1 - 0.0001) (self_zbinsize s) = Inr h"
    and "length h = length (self_volume s)"
  shows "density_cost env s data =
         Inr (\<Sum>b<length h.
               ((real (h ! b) / self_volume s ! b - self_n0 s * 0.0001) /
                (sqrt (self_n0 s * 0.0001 * self_volume s ! b) / self_volume s ! b)) ^ 2)"
proof -
  let ?m = "length h"
  let ?V = "self_volume s"
  have den: "broadcast (\<lambda>a b. a / b) (map real h) ?V =
             Inr (map (\<lambda>b. real (h ! b) / ?V ! b) [0..<?m])"
    using assms(2) by (simp add: broadcast_same[where n = ?m])
  have err: "map (\<lambda>v. sqrt (self_n0 s * 0.0001 * v) / v) ?V =
             map (\<lambda>b. sqrt (self_n0 s * 0.0001 * ?V ! b) / ?V ! b) [0..<?m]"
    using assms(2) by (intro nth_equalityI) auto
  show ?thesis
    unfolding density_cost_def assms(1) bindE_Inr den Let_def err
    by (simp add: broadcast_maps bindE_Inr sum_list_upt o_def)
qed

lemma demo_survivors: "survivors (demo_line 10 20) demo_fitter = [0, 1]"
  by (simp add: survivors_def passes_def demo_fitter_def np_clip_def zmax_of_def upt_rec demo_line_def)

lemma demo_zsamp: "map (zsamp_of demo_fitter) [0, 1] = [0.2, 0.3]"
  by (simp add: zsamp_of_def demo_fitter_def)

lemma demo_hist:
  "histogram demo_env [0.2, 0.3] (self_zrange demo_fitter ! 0)
     (self_zrange demo_fitter ! 1 - 0.0001) (self_zbinsize demo_fitter) = Inr [1, 1]"
  by (simp add: demo_env_def demo_fitter_def count_histogram_def upt_rec)

lemma wf_demo_fitter_ab: "wf_fitter demo_fitter_ab"
  by (simp add: wf_fitter_def demo_fitter_ab_def demo_fitter_def)

lemma demo_spline_ab:
  "CubicSpline demo_env (self_nodes demo_fitter_ab) [v, w] =
   Inr (demo_line v w)"
  by (simp add: demo_env_def demo_fitter_ab_def demo_fitter_def small_spline_def
      demo_line_def[abs_def])

section \<open>What \<^verbatim>\<open>fit\<close> changes\<close>

lemma slice_assign_same: "length src = length dst \<Longrightarrow> slice_assign dst src = Inr src"
  by (simp add: slice_assign_def)

lemma set_corrected_False:
  assumes "length (self_zredmagic s) = length (self_z s)"
    and "length (self_zredmagic_e s) = length (self_z_err s)"
  shows "set_corrected env s bp ep False =
         (Inr (), s\<lparr>self_zredmagic := self_z s, self_zredmagic_e := self_z_err s\<rparr>)"
  using assms by (simp add: set_corrected_def slice_assign_same)

lemma set_corrected_ignores_pars:
  "set_corrected env s bp ep False = set_corrected env s None None False"
  by (simp add: set_corrected_def)

lemma fit_False_ignores_pars: "fit env s p0 bp ep False = fit env s p0 None None False"
  by (simp add: fit_def set_corrected_ignores_pars[of env _ bp ep])

lemma wf_lengths:
  assumes "wf_fitter s"
  shows "length (self_zredmagic s) = length (self_z s)"
    and "length (self_zredmagic_e s) = length (self_z_err s)"
    and "length (self_z_err s) = length (self_z s)"
  using assms by (simp_all add: wf_fitter_def Let_def)

lemma fit_False_state:
  assumes "wf_fitter s"
  shows "snd (fit env s p0 bp ep False) =
         s\<lparr>self_afterburner := False, self_zredmagic := self_z s,
           self_zredmagic_e := self_z_err s,
           self_mstar := map (zredstr_mstar env) (self_z s)\<rparr>"
proof -
  let ?s1 = "s\<lparr>self_afterburner := False\<rparr>"
  have "set_corrected env ?s1 bp ep False =
        (Inr (), ?s1\<lparr>self_zredmagic := self_z ?s1, self_zredmagic_e := self_z_err ?s1\<rparr>)"
    using wf_lengths[OF assms] by (intro set_corrected_False) simp_all
  then show ?thesis by (simp add: fit_def Let_def)
qed

lemma broadcast_length:
  "length xs = length ys \<Longrightarrow> broadcast f xs ys = Inr (map2 f xs ys)"
  by (simp add: broadcast_def)

lemma set_corrected_shape:
  "\<exists>zr ze. snd (set_corrected env s bp ep ab) = s\<lparr>self_zredmagic := zr, self_zredmagic_e := ze\<rparr> \<and>
     (wf_fitter s \<longrightarrow> length zr = length (self_z s) \<and> length ze = length (self_z s))"
proof -
  have keep: "\<exists>zr ze. s = s\<lparr>self_zredmagic := zr, self_zredmagic_e := ze\<rparr> \<and>
     (wf_fitter s \<longrightarrow> length zr = length (self_z s) \<and> length ze = length (self_z s))"
    by (rule exI[of _ "self_zredmagic s"], rule exI[of _ "self_zredmagic_e s"])
      (simp add: wf_fitter_def Let_def)
  have keep1: "\<exists>zr' ze. s\<lparr>self_zredmagic := zr\<rparr> = s\<lparr>self_zredmagic := zr', self_zredmagic_e := ze\<rparr> \<and>
     (wf_fitter s \<longrightarrow> length zr' = length (self_z s) \<and> length ze = length (self_z s))"
    if "wf_fitter s \<longrightarrow> length zr = length (self_z s)" for zr
    using that
    by (intro exI[of _ zr] exI[of _ "self_zredmagic_e s"]) (simp add: wf_fitter_def Let_def)
  show ?thesis
  proof (cases ab)
    case True
    show ?thesis
    proof (cases "bp = None \<or> ep = None")
      case True
      with \<open>ab\<close> keep show ?thesis by (simp add: set_corrected_def)
    next
      case False
      then obtain b e where be: "bp = Some b" "ep = Some e" by auto
      show ?thesis
      proof (cases "CubicSpline env (self_corrnodes s) b")
        case (Inl err)
        with \<open>ab\<close> be keep show ?thesis by (simp add: set_corrected_def)
      next
        case (Inr spl)
        have zr: "broadcast (\<lambda>a b. a - b) (self_z s) (map spl (self_z s)) =
                  Inr (map2 (\<lambda>a b. a - b) (self_z s) (map spl (self_z s)))"
          by (simp add: broadcast_length)
        let ?zr = "map2 (\<lambda>a b. a - b) (self_z s) (map spl (self_z s))"
        have lzr: "length ?zr = length (self_z s)" by simp
        show ?thesis
        proof (cases "CubicSpline env (self_corrnodes s) e")
          case (Inl err)
          with \<open>ab\<close> be Inr zr keep1[of ?zr] lzr show ?thesis
            by (simp add: set_corrected_def Let_def)
        next
          case spl2: (Inr spl2)
          show ?thesis
          proof (cases "broadcast (\<lambda>a b. a * b) (self_z_err s) (map spl2 (self_z s))")
            case (Inl err)
            with \<open>ab\<close> be Inr zr spl2 keep1[of ?zr] lzr show ?thesis
              by (simp add: set_corrected_def Let_def)
          next
            case ze: (Inr ze)
            have "wf_fitter s \<longrightarrow> length ze = length (self_z s)"
              using ze by (auto simp: wf_fitter_def Let_def broadcast_def)
            with \<open>ab\<close> be Inr zr spl2 ze lzr show ?thesis
              by (simp add: set_corrected_def Let_def del: length_map length_zip) blast
          qed
        qed
      qed
    qed
  next
    case False
    show ?thesis
    proof (cases "slice_assign (self_zredmagic s) (self_z s)")
      case (Inl err)
      with False keep show ?thesis by (simp add: set_corrected_def)
    next
      case (Inr zr)
      have lzr: "wf_fitter s \<longrightarrow> length zr = length (self_z s)"
        using Inr by (auto simp: slice_assign_def wf_fitter_def Let_def split: if_splits)
      show ?thesis
      proof (cases "slice_assign (self_zredmagic_e s) (self_z_err s)")
        case (Inl err)
        with False Inr keep1[OF lzr] show ?thesis by (simp add: set_corrected_def Let_def)
      next
        case ze: (Inr ze)
        have "wf_fitter s \<longrightarrow> length ze = length (self_z s)"
          using ze by (auto simp: slice_assign_def wf_fitter_def Let_def split: if_splits)
        with False Inr ze lzr show ?thesis
          by (simp add: set_corrected_def Let_def) blast
      qed
    qed
  qed
qed

lemma fit_shape:
  "\<exists>b zr ze ms. snd (fit env s p0 bp ep ab) =
       s\<lparr>self_afterburner := b, self_zredmagic := zr, self_zredmagic_e := ze, self_mstar := ms\<rparr> \<and>
     (wf_fitter s \<longrightarrow> length zr = length (self_z s) \<and> length ze = length (self_z s) \<and>
        length ms = length (self_z s))"
proof (cases "self_ab_use s = None \<and> ab")
  case True
  then have "snd (fit env s p0 bp ep ab) = s" by (simp add: fit_def)
  then show ?thesis
    by (intro exI[of _ "self_afterburner s"] exI[of _ "self_zredmagic s"]
        exI[of _ "self_zredmagic_e s"] exI[of _ "self_mstar s"])
      (simp add: wf_fitter_def Let_def)
next
  case False
  let ?s1 = "s\<lparr>self_afterburner := ab\<rparr>"
  obtain r s2 where sc: "set_corrected env ?s1 bp ep ab = (r, s2)" by force
  have c: "(self_ab_use s = None \<and> ab) = False" using False by simp
  have w1: "wf_fitter s \<Longrightarrow> wf_fitter ?s1" by (simp add: wf_fitter_def)
  from set_corrected_shape[of env ?s1 bp ep ab] sc obtain zr ze where
    s2: "s2 = s\<lparr>self_afterburner := ab, self_zredmagic := zr, self_zredmagic_e := ze\<rparr>"
    and l: "wf_fitter s \<longrightarrow> length zr = length (self_z s) \<and> length ze = length (self_z s)"
    using w1 by auto
  show ?thesis
  proof (cases r)
    case (Inl e)
    have "s2 = s\<lparr>self_afterburner := ab, self_zredmagic := zr, self_zredmagic_e := ze,
                 self_mstar := self_mstar s\<rparr> \<and>
          (wf_fitter s \<longrightarrow> length zr = length (self_z s) \<and> length ze = length (self_z s) \<and>
             length (self_mstar s) = length (self_z s))"
      using s2 l by (simp add: wf_fitter_def Let_def)
    moreover have "snd (fit env s p0 bp ep ab) = s2"
      using sc Inl by (simp add: fit_def c)
    ultimately show ?thesis by metis
  next
    case (Inr u)
    have "snd (fit env s p0 bp ep ab) = s2\<lparr>self_mstar := map (zredstr_mstar env) (self_zredmagic s2)\<rparr>"
      using sc Inr by (simp add: fit_def Let_def c)
    moreover have "s2\<lparr>self_mstar := map (zredstr_mstar env) (self_zredmagic s2)\<rparr> =
        s\<lparr>self_afterburner := ab, self_zredmagic := zr, self_zredmagic_e := ze,
          self_mstar := map (zredstr_mstar env) zr\<rparr>"
      using s2 by simp
    moreover have "wf_fitter s \<longrightarrow> length zr = length (self_z s) \<and> length ze = length (self_z s) \<and>
             length (map (zredstr_mstar env) zr) = length (self_z s)"
      using l by simp
    ultimately show ?thesis by metis
  qed
qed

lemma fit_keeps_raw:
  "self_z (snd (fit env s p0 bp ep ab)) = self_z s"
  "self_z_err (snd (fit env s p0 bp ep ab)) = self_z_err s"
  "self_randomn (snd (fit env s p0 bp ep ab)) = self_randomn s"
  "self_ab_use (snd (fit env s p0 bp ep ab)) = self_ab_use s"
  using fit_shape[of env s p0 bp ep ab] by auto

lemma fit_wf:
  assumes "wf_fitter s"
  shows "wf_fitter (snd (fit env s p0 bp ep ab))"
proof -
  from fit_shape[of env s p0 bp ep ab] assms obtain b zr ze ms where
    e: "snd (fit env s p0 bp ep ab) =
        s\<lparr>self_afterburner := b, self_zredmagic := zr, self_zredmagic_e := ze, self_mstar := ms\<rparr>"
    and l: "length zr = length (self_z s)" "length ze = length (self_z s)"
      "length ms = length (self_z s)"
    by blast
  show ?thesis unfolding e using assms l by (simp add: wf_fitter_def Let_def)
qed

lemma init_wf:
  assumes "init nodes corrnodes z z_err chisq mstar zcal zcal_err refmag randomn zmax etamin n0
             volume zrange zbinsize maxchi ab_use = Inr s"
    and "length zmax = length z \<or> length zmax = 1"
  shows "wf_fitter s"
proof -
  have l: "length z = length z_err" "length z = length chisq" "length z = length mstar"
    "length z = length zcal" "length z = length zcal_err" "length z = length refmag"
    "length z = length randomn" "length zrange = 2"
    using assms(1) by (simp_all add: init_def split: if_splits)
  then have "s = \<lparr> self_nodes = nodes, self_corrnodes = corrnodes, self_z = z,
                 self_z_err = z_err, self_zredmagic = z, self_zredmagic_e = z_err,
                 self_chisq = chisq, self_mstar = mstar, self_zcal = zcal,
                 self_zcal_err = zcal_err, self_refmag = refmag, self_randomn = randomn,
                 self_zmax = zmax, self_etamin = etamin, self_n0 = n0,
                 self_volume = volume, self_zrange = zrange, self_zbinsize = zbinsize,
                 self_ab_use = ab_use, self_maxchi = maxchi, self_afterburner = False \<rparr>"
    using assms(1) by (simp add: init_def)
  then show ?thesis using l assms(2) by (simp add: wf_fitter_def Let_def)
qed

lemma fit_no_ab_use:
  "self_ab_use s = None \<Longrightarrow>
   fit env s p0 bp ep True =
     (Inl (RuntimeError ''Must set afterburner_use if using the afterburner''), s)"
  by (simp add: fit_def)

lemma set_corrected_no_pars:
  "bp = None \<or> ep = None \<Longrightarrow>
   set_corrected env s bp ep True =
     (Inl (RuntimeError ''Must set biaspars, eratiopars if using the afterburner''), s)"
  by (simp add: set_corrected_def)

lemma fit_no_pars:
  assumes "self_ab_use s \<noteq> None" and "bp = None \<or> ep = None"
  shows "fit env s p0 bp ep True =
     (Inl (RuntimeError ''Must set biaspars, eratiopars if using the afterburner''),
      s\<lparr>self_afterburner := True\<rparr>)"
proof -
  have c: "(self_ab_use s = None \<and> True) = False" using assms(1) by simp
  show ?thesis
    unfolding fit_def c if_False Let_def set_corrected_no_pars[OF assms(2)]
    by simp
qed

lemma demo_corrnodes_spline:
  "CubicSpline demo_env (self_corrnodes (demo_fitter\<lparr>self_afterburner := True\<rparr>)) [v, w] =
     Inr (demo_line v w)"
  by (simp add: demo_env_def demo_fitter_def small_spline_def demo_line_def[abs_def])

lemma demo_set_corrected:
  "set_corrected demo_env (demo_fitter\<lparr>self_afterburner := True\<rparr>)
     (Some [0.01, 0.01]) (Some [2, 2]) True = (Inr (), demo_fitter_ab)"
proof -
  let ?s = "demo_fitter\<lparr>self_afterburner := True\<rparr>"
  have z: "self_z ?s = [0.2, 0.3, 0.4]" "self_z_err ?s = [0.01, 0.01, 0.01]"
    by (simp_all add: demo_fitter_def)
  have b1: "broadcast (\<lambda>a b. a - b) (self_z ?s) (map (demo_line 0.01 0.01) (self_z ?s)) =
            Inr [0.19, 0.29, 0.39]"
    unfolding z by (simp add: broadcast_def demo_line_def)
  have z1: "self_z (?s\<lparr>self_zredmagic := [0.19, 0.29, 0.39]\<rparr>) = [0.2, 0.3, 0.4]"
    "self_z_err (?s\<lparr>self_zredmagic := [0.19, 0.29, 0.39]\<rparr>) = [0.01, 0.01, 0.01]"
    "self_corrnodes (?s\<lparr>self_zredmagic := [0.19, 0.29, 0.39]\<rparr>) = self_corrnodes ?s"
    by (simp_all add: demo_fitter_def)
  have b2: "broadcast (\<lambda>a b. a * b) [0.01, 0.01, 0.01] (map (demo_line 2 2) [0.2, 0.3, 0.4]) =
            Inr [0.02, 0.02, 0.02 :: real]"
    by (simp add: broadcast_def demo_line_def)
  have fin: "?s\<lparr>self_zredmagic := [0.19, 0.29, 0.39], self_zredmagic_e := [0.02, 0.02, 0.02]\<rparr> =
             demo_fitter_ab"
    by (simp add: demo_fitter_ab_def demo_fitter_def)
  show ?thesis
    unfolding set_corrected_def
    by (simp only: if_True option.sel option.distinct simp_thms if_False
        demo_corrnodes_spline sum.case b1 Let_def z1 b2 fin)
qed

lemma demo_fit_ab:
  "snd (fit demo_env demo_fitter [10, 20] (Some [0.01, 0.01]) (Some [2, 2]) True) = demo_fitter_ab"
proof -
  have c: "(self_ab_use demo_fitter = None \<and> True) = False" by (simp add: demo_fitter_def)
  have m: "demo_fitter_ab\<lparr>self_mstar := map (zredstr_mstar demo_env) (self_zredmagic demo_fitter_ab)\<rparr> =
           demo_fitter_ab"
    by (simp add: demo_fitter_ab_def demo_fitter_def demo_env_def)
  show ?thesis
    unfolding fit_def c if_False Let_def demo_set_corrected prod.case sum.case snd_conv
    by (rule m)
qed

lemma demo_cost: "cost demo_env demo_fitter [10, 20] = Inr 0"
proof -
  have h3: "survivors (demo_line 10 20) demo_fitter \<noteq> []"
    by (simp add: demo_survivors)
  have h5: "length [1::nat, 1] = length (self_volume demo_fitter)"
    by (simp add: demo_fitter_def)
  have v: "self_volume demo_fitter = [10000, 10000]" "self_n0 demo_fitter = 1"
    by (simp_all add: demo_fitter_def)
  have two: "{..<2::nat} = {0, 1}" by auto
  have "density_cost demo_env demo_fitter [0.2, 0.3] = Inr 0"
    using density_cost_ok[OF demo_hist h5] by (simp add: v two)
  then show ?thesis
    unfolding cost_wf[OF wf_demo_fitter demo_spline] demo_survivors demo_zsamp
    by simp
qed

section \<open>Reordering the galaxies\<close>

lemma is_permutation_mset: "is_permutation p n \<Longrightarrow> mset p = mset [0..<n]"
  unfolding is_permutation_def by (metis mset_sort)

lemma is_permutation_length: "is_permutation p n \<Longrightarrow> length p = n"
  using is_permutation_mset[of p n] by (metis size_mset length_upt diff_zero)

lemma is_permutation_nth: "is_permutation p n \<Longrightarrow> j < n \<Longrightarrow> p ! j < n"
proof -
  assume a: "is_permutation p n" "j < n"
  then have "p ! j \<in> set p" by (simp add: is_permutation_length)
  also have "set p = set [0..<n]" using is_permutation_mset[OF a(1)] by (metis set_mset_mset)
  finally show ?thesis by simp
qed

lemma np_take_length: "length (np_take xs p) = length p"
  by (simp add: np_take_def)

lemma np_take_nth: "j < length p \<Longrightarrow> np_take xs p ! j = xs ! (p ! j)"
  by (simp add: np_take_def)

lemma permute_wf:
  assumes "wf_fitter s" and "is_permutation p (length (self_z s))"
  shows "wf_fitter (permute_fitter p s)"
  using assms(1) is_permutation_length[OF assms(2)]
  by (auto simp: wf_fitter_def permute_fitter_def Let_def np_take_length)

lemma permute_length: "length (self_z (permute_fitter p s)) = length p"
  by (simp add: permute_fitter_def np_take_length)

lemma permute_zmax_of:
  assumes "wf_fitter s" and "is_permutation p (length (self_z s))" and "j < length (self_z s)"
  shows "zmax_of (permute_fitter p s) j = zmax_of s (p ! j)"
proof (cases "length (self_zmax s) = 1")
  case True
  then show ?thesis by (simp add: zmax_of_def permute_fitter_def)
next
  case False
  then have l: "length (self_zmax s) = length (self_z s)"
    using assms(1) by (auto simp: wf_fitter_def Let_def)
  have lp: "length p = length (self_z s)" by (rule is_permutation_length[OF assms(2)])
  have "self_zmax (permute_fitter p s) = np_take (self_zmax s) p"
    using False by (simp add: permute_fitter_def)
  then show ?thesis
    using False l lp assms(3) by (simp add: zmax_of_def np_take_length np_take_nth)
qed

lemma permute_passes:
  assumes "wf_fitter s" and "is_permutation p (length (self_z s))" and "j < length (self_z s)"
  shows "passes spl (permute_fitter p s) j = passes spl s (p ! j)"
proof -
  have lp: "j < length p" using is_permutation_length[OF assms(2)] assms(3) by simp
  have f: "self_chisq (permute_fitter p s) ! j = self_chisq s ! (p ! j)"
    "self_z (permute_fitter p s) ! j = self_z s ! (p ! j)"
    "self_refmag (permute_fitter p s) ! j = self_refmag s ! (p ! j)"
    "self_mstar (permute_fitter p s) ! j = self_mstar s ! (p ! j)"
    "self_zredmagic (permute_fitter p s) ! j = self_zredmagic s ! (p ! j)"
    "self_maxchi (permute_fitter p s) = self_maxchi s"
    "self_etamin (permute_fitter p s) = self_etamin s"
    using lp by (simp_all add: permute_fitter_def np_take_nth)
  show ?thesis
    unfolding passes_def f permute_zmax_of[OF assms] by (rule refl)
qed

lemma permute_zsamp_of:
  assumes "j < length p"
  shows "zsamp_of (permute_fitter p s) j = zsamp_of s (p ! j)"
  using assms by (simp add: zsamp_of_def permute_fitter_def np_take_nth)

lemma permute_survivors_data:
  assumes "wf_fitter s" and "is_permutation p (length (self_z s))"
  shows "map (zsamp_of (permute_fitter p s)) (survivors spl (permute_fitter p s)) =
         map (zsamp_of s) (filter (passes spl s) p)"
proof -
  let ?n = "length (self_z s)"
  have lp: "length p = ?n" by (rule is_permutation_length[OF assms(2)])
  have sv: "survivors spl (permute_fitter p s) = filter (\<lambda>j. passes spl s (p ! j)) [0..<?n]"
    unfolding survivors_def permute_length lp
    by (rule filter_cong[OF refl]) (simp add: permute_passes[OF assms])
  have "map (zsamp_of (permute_fitter p s)) (filter (\<lambda>j. passes spl s (p ! j)) [0..<?n]) =
        map (\<lambda>j. zsamp_of s (p ! j)) (filter (\<lambda>j. passes spl s (p ! j)) [0..<?n])"
    by (rule map_cong[OF refl]) (simp add: permute_zsamp_of lp)
  also have "\<dots> = map (zsamp_of s) (map (\<lambda>j. p ! j) (filter ((passes spl s) \<circ> (\<lambda>j. p ! j)) [0..<?n]))"
    by (simp add: o_def)
  also have "\<dots> = map (zsamp_of s) (filter (passes spl s) (map (\<lambda>j. p ! j) [0..<?n]))"
    by (simp only: filter_map)
  also have "map (\<lambda>j. p ! j) [0..<?n] = p"
    using map_nth[of p] lp by simp
  finally show ?thesis unfolding sv .
qed

lemma survivors_data_mset:
  assumes "wf_fitter s" and "is_permutation p (length (self_z s))"
  shows "mset (map (zsamp_of (permute_fitter p s)) (survivors spl (permute_fitter p s))) =
         mset (map (zsamp_of s) (survivors spl s))"
proof -
  have "mset (map (zsamp_of (permute_fitter p s)) (survivors spl (permute_fitter p s))) =
        mset (map (zsamp_of s) (filter (passes spl s) p))"
    by (simp only: permute_survivors_data[OF assms])
  also have "\<dots> = image_mset (zsamp_of s) (filter_mset (passes spl s) (mset p))"
    by simp
  also have "\<dots> = image_mset (zsamp_of s) (filter_mset (passes spl s) (mset [0..<length (self_z s)]))"
    by (simp only: is_permutation_mset[OF assms(2)])
  also have "\<dots> = mset (map (zsamp_of s) (survivors spl s))"
    unfolding survivors_def by (simp only: mset_map mset_filter)
  finally show ?thesis .
qed

lemma density_cost_permute:
  "density_cost env (permute_fitter p s) data = density_cost env s data"
  by (simp add: density_cost_def permute_fitter_def)

lemma density_cost_order_free:
  assumes "hist_order_free env" and "mset xs = mset ys"
  shows "density_cost env s xs = density_cost env s ys"
proof -
  have "histogram env xs lo hi b = histogram env ys lo hi b" for lo hi b
    using assms unfolding hist_order_free_def by blast
  then show ?thesis by (simp add: density_cost_def)
qed

lemma filter_length_mset:
  assumes "mset xs = mset ys"
  shows "length (filter P xs) = length (filter P ys)"
proof -
  have "mset (filter P xs) = mset (filter P ys)"
    using assms by simp
  then show ?thesis by (rule mset_eq_length)
qed

lemma count_histogram_mset:
  assumes "mset xs = mset ys"
  shows "count_histogram xs lo hi b = count_histogram ys lo hi b"
  unfolding count_histogram_def Let_def
  by (simp only: filter_length_mset[OF assms])

lemma count_histogram_order_free: "hist_order_free demo_env"
proof -
  have h: "histogram demo_env = count_histogram" by (simp add: demo_env_def)
  show ?thesis
    unfolding hist_order_free_def h
    by (intro allI impI) (rule count_histogram_mset)
qed

lemma demo_is_permutation: "is_permutation [2, 0, 1] (length (self_z demo_fitter))"
  by (simp add: is_permutation_def demo_fitter_def upt_rec)

section \<open>\<^verbatim>\<open>fit_bias_eratio\<close> without a held-out index set\<close>

lemma broadcast_ok:
  assumes "length xs = length ys \<or> length ys = 1"
  shows "\<exists>r. broadcast f xs ys = Inr r \<and> length r = length xs"
  using assms by (auto simp: broadcast_def)

lemma fit_bias_eratio_no_ab_use:
  assumes "wf_fitter s" and "self_ab_use s = None"
    and "CubicSpline env (self_nodes s) cval = Inr spl"
  shows "fit_bias_eratio env s cval p0_bias p0_eratio =
         Inl (ValueError ''too many values to unpack (expected 1)'')"
proof -
  let ?n = "length (self_z s)"
  let ?c2m = "map (\<lambda>x. np_clip (spl x) 0.1 (self_maxchi s)) (self_z s)"
  have l: "length (self_chisq s) = ?n" "length (self_refmag s) = ?n"
    "length (self_mstar s) = ?n" "length (self_zredmagic s) = ?n"
    "length (self_zmax s) = ?n \<or> length (self_zmax s) = 1"
    using assms(1) by (simp_all add: wf_fitter_def Let_def)
  obtain m1 where m1: "broadcast (\<lambda>a b. a < b) (self_chisq s) ?c2m = Inr m1"
    "length m1 = ?n"
    using broadcast_ok[of "self_chisq s" ?c2m "\<lambda>a b. a < b"] l by auto
  obtain m2 where m2: "broadcast (\<lambda>a b. a < b) (self_refmag s)
      (map (\<lambda>m. m - 2.5 * log 10 (self_etamin s)) (self_mstar s)) = Inr m2" "length m2 = ?n"
    using broadcast_ok[of "self_refmag s"
        "map (\<lambda>m. m - 2.5 * log 10 (self_etamin s)) (self_mstar s)" "\<lambda>a b. a < b"] l by auto
  obtain m12 where m12: "broadcast (\<lambda>a b. a \<and> b) m1 m2 = Inr m12" "length m12 = ?n"
    using broadcast_ok[of m1 m2 "\<lambda>a b. a \<and> b"] m1 m2 by auto
  obtain m3 where m3: "broadcast (\<lambda>a b. a < b) (self_zredmagic s) (self_zmax s) = Inr m3"
    "length m3 = ?n"
    using broadcast_ok[of "self_zredmagic s" "self_zmax s" "\<lambda>a b. a < b"] l by auto
  have m3': "(if 1 < length (self_zmax s)
              then bindE (index_ab None (self_zmax s))
                     (\<lambda>zmax_ab. broadcast (\<lambda>a b. a < b) (self_zredmagic s) zmax_ab)
              else broadcast (\<lambda>a b. a < b) (self_zredmagic s) (self_zmax s)) = Inr m3"
    by (simp add: index_ab_def bindE_Inr m3)
  obtain mask where mask: "inplace (\<lambda>a b. a \<and> b) m12 m3 = Inr mask"
    using m12 m3 by (simp add: inplace_def)
  show ?thesis
    unfolding fit_bias_eratio_def assms(3) bindE_Inr Let_def assms(2)
    by (simp only: index_ab_def option.case bindE_Inr m1 m2 m12 if_cancel m3 mask bindE_Inl)
qed

lemma demo_init_no_ab:
  "init [0.2, 0.4] [0.2, 0.4] [0.2, 0.3, 0.4] [0.01, 0.01, 0.01] [1, 5, 30] [20, 20, 20]
        [0.21, 0.3, - 1] [0.001, 0.001, - 1] [19, 19, 19] [0, 0, 0] [0.5] 1 1
        [10000, 10000] [0.2, 0.4] 0.1 20 None = Inr demo_fitter_no_ab"
  by (simp add: init_def demo_fitter_no_ab_def demo_fitter_def)

lemma wf_demo_fitter_no_ab: "wf_fitter demo_fitter_no_ab"
  by (simp add: wf_fitter_def demo_fitter_no_ab_def demo_fitter_def)

lemma demo_spline_no_ab:
  "CubicSpline demo_env (self_nodes demo_fitter_no_ab) [v, w] = Inr (demo_line v w)"
  by (simp add: demo_env_def demo_fitter_no_ab_def demo_fitter_def small_spline_def
      demo_line_def[abs_def])

lemma demo_no_ab_use: "self_ab_use demo_fitter_no_ab = None"
  by (simp add: demo_fitter_no_ab_def)

section \<open>The prefilter and the starting thresholds of \<^verbatim>\<open>run\<close>\<close>

lemma prefilter_cases:
  assumes "redmagic_etas conf \<noteq> []" and "length (redmagic_zrange conf) = 2"
  shows "prefilter env conf gals =
           Inl (RuntimeError ''No galaxies in redshift range/chisq range/eta range.'') \<or>
         (\<exists>sel. prefilter env conf gals = Inr sel \<and> sel \<noteq> [])"
  using assms by (simp add: prefilter_def Let_def get_def bindE_def)

lemma prefilter_no_galaxy:
  assumes "redmagic_etas conf \<noteq> []" and "length (redmagic_zrange conf) = 2"
    and "list_all (\<lambda>g. \<not> gal_chisq g < redmagic_calib_chisqcut conf) gals"
  shows "prefilter env conf gals =
           Inl (RuntimeError ''No galaxies in redshift range/chisq range/eta range.'')"
proof -
  have "\<not> gal_chisq (gals ! i) < redmagic_calib_chisqcut conf" if "i < length gals" for i
    using assms(3) that by (simp add: list_all_length)
  then show ?thesis
    using assms(1,2) by (simp add: prefilter_def Let_def filter_empty_conv get_def bindE_def)
qed

lemma index_by_Nil: "index_by xs [] = Inr []"
  by (simp add: index_by_def)

lemma np_argsort_Nil: "np_argsort [] = []"
  by (simp add: np_argsort_def)

lemma node_cmaxval_empty_window:
  assumes "list_all (\<lambda>i. i < length gals) red_poss"
    and "list_all (\<lambda>i. \<not> (gal_zuse (gals ! i) > fst (node_zrange nodes zbinsize j) \<and>
                            gal_zuse (gals ! i) < snd (node_zrange nodes zbinsize j))) red_poss"
  shows "node_cmaxval gals red_poss test_vol n0 nodes zbinsize j = Inl IndexError"
proof -
  let ?zr = "node_zrange nodes zbinsize j"
  have ib: "index_by (map gal_zuse gals) red_poss = Inr (map (\<lambda>i. map gal_zuse gals ! i) red_poss)"
    using assms(1) by (simp add: index_by_def)
  have "\<not> (map (\<lambda>x. x > fst ?zr \<and> x < snd ?zr) (map (\<lambda>i. map gal_zuse gals ! i) red_poss)) ! k"
    if "k < length red_poss" for k
    using assms that by (simp add: list_all_length)
  then have u: "np_where (map (\<lambda>x. x > fst ?zr \<and> x < snd ?zr)
                   (map (\<lambda>i. map gal_zuse gals ! i) red_poss)) = []"
    by (simp add: np_where_def filter_empty_conv)
  show ?thesis
    unfolding node_cmaxval_def Let_def ib bindE_Inr u index_by_Nil np_argsort_Nil
    by (simp add: np_searchsorted_def get_def bindE_def)
qed

lemma np_where_length: "length (np_where (map P xs)) = length (filter P xs)"
proof -
  have "filter P (map (\<lambda>k. xs ! k) [0..<length xs]) =
        map (\<lambda>k. xs ! k) (filter (P \<circ> (\<lambda>k. xs ! k)) [0..<length xs])"
    by (rule filter_map)
  then have "length (filter P xs) = length (filter (P \<circ> (\<lambda>k. xs ! k)) [0..<length xs])"
    by (simp add: map_nth)
  also have "filter (P \<circ> (\<lambda>k. xs ! k)) [0..<length xs] = np_where (map P xs)"
    unfolding np_where_def by (rule filter_cong) simp_all
  finally show ?thesis by simp
qed

lemma np_where_bound: "list_all (\<lambda>k. k < length m) (np_where m)"
  by (simp add: np_where_def list_all_iff)

lemma index_by_ok:
  "list_all (\<lambda>i. i < length xs) idx \<Longrightarrow> index_by xs idx = Inr (map (\<lambda>i. xs ! i) idx)"
  by (simp add: index_by_def)

lemma np_searchsorted_all_below:
  assumes "list_all (\<lambda>x. x < v) a"
  shows "np_searchsorted a v = length a"
proof -
  have "\<forall>x\<in>set a. x < v" using assms by (simp add: list_all_iff)
  then have "takeWhile (\<lambda>x. x < v) a = a"
    by (simp only: takeWhile_eq_all_conv)
  then show ?thesis unfolding np_searchsorted_def by (rule arg_cong)
qed

lemma np_argsort_length: "length (np_argsort xs) = length xs"
  by (simp add: np_argsort_def)

lemma test_den_below:
  assumes "0 < V" and "real m - 1 < t * V"
  shows "list_all (\<lambda>x. x < t) (map (\<lambda>k. real k / V) [0..<m])"
proof -
  have "real k / V < t" if "k < m" for k
  proof -
    have "real k \<le> real m - 1" using that by simp
    then have "real k < t * V" using assms(2) by linarith
    then show ?thesis using assms(1) by (simp add: pos_divide_less_eq)
  qed
  then show ?thesis by (simp add: list_all_iff)
qed

lemma node_cmaxval_too_few:
  assumes "list_all (\<lambda>i. i < length gals) red_poss"
    and "0 < test_vol ! j"
    and "real (length (filter (\<lambda>i. gal_zuse (gals ! i) > fst (node_zrange nodes zbinsize j) \<and>
                                    gal_zuse (gals ! i) < snd (node_zrange nodes zbinsize j))
                         red_poss)) - 1 < n0 * 0.0001 * test_vol ! j"
  shows "node_cmaxval gals red_poss test_vol n0 nodes zbinsize j = Inl IndexError"
proof -
  let ?zr = "node_zrange nodes zbinsize j"
  let ?W = "\<lambda>x. x > fst ?zr \<and> x < snd ?zr"
  let ?zp = "map (\<lambda>i. map gal_zuse gals ! i) red_poss"
  let ?u = "np_where (map ?W ?zp)"
  have ib: "index_by (map gal_zuse gals) red_poss = Inr ?zp"
    using assms(1) by (simp add: index_by_def)
  have lu: "length ?u = length (filter (\<lambda>i. ?W (gal_zuse (gals ! i))) red_poss)"
  proof -
    have "length ?u = length (filter ?W ?zp)" by (rule np_where_length)
    also have "\<dots> = length (filter (?W \<circ> (\<lambda>i. map gal_zuse gals ! i)) red_poss)"
      by (simp only: filter_map length_map)
    also have "filter (?W \<circ> (\<lambda>i. map gal_zuse gals ! i)) red_poss =
               filter (\<lambda>i. ?W (gal_zuse (gals ! i))) red_poss"
      using assms(1) by (intro filter_cong refl) (simp add: list_all_iff)
    finally show ?thesis .
  qed
  have ub: "list_all (\<lambda>k. k < length red_poss) ?u"
    using np_where_bound[of "map ?W ?zp"] by simp
  let ?ru = "map (\<lambda>k. red_poss ! k) ?u"
  have iu: "index_by red_poss ?u = Inr ?ru"
    by (rule index_by_ok[OF ub])
  have rb: "list_all (\<lambda>i. i < length (map gal_chisq gals)) ?ru"
    using ub assms(1) by (simp add: list_all_iff)
  let ?cs = "map (\<lambda>i. map gal_chisq gals ! i) ?ru"
  have ic: "index_by (map gal_chisq gals) ?ru = Inr ?cs"
    by (rule index_by_ok[OF rb])
  have ind: "np_searchsorted (map (\<lambda>k. real k / test_vol ! j) [0..<length ?u]) (n0 * 0.0001) =
             length ?u"
    using np_searchsorted_all_below[OF test_den_below[OF assms(2), of "length ?u" "n0 * 0.0001"]]
      assms(3) lu by simp
  have g: "get (np_argsort ?cs) (length ?u) = Inl IndexError"
    by (simp add: get_def np_argsort_length)
  show ?thesis
    unfolding node_cmaxval_def Let_def ib bindE_Inr iu ic ind g bindE_Inl
    by (rule refl)
qed

lemma demo_node0:
  "node_cmaxval demo_gals [0, 1] [10000, 10000, 10000] 1 [0.2, 0.3, 0.4] 0.02 0 = Inr 2"
proof -
  have zr: "node_zrange [0.2, 0.3, 0.4] 0.02 0 = (0.2, 0.22)"
    by (simp add: node_zrange_def)
  have zu: "map gal_zuse demo_gals = [0.21, 0.21]" "map gal_chisq demo_gals = [1, 2]"
    by (simp_all add: demo_gals_def)
  have ib: "index_by [0.21, 0.21 :: real] [0, 1] = Inr [0.21, 0.21]"
    "index_by [0, 1 :: nat] [0, 1] = Inr [0, 1]"
    "index_by [1, 2 :: real] [0, 1] = Inr [1, 2]"
    by (simp_all add: index_by_def)
  have u: "np_where (map (\<lambda>x. x > fst (0.2 :: real, 0.22 :: real) \<and> x < snd (0.2 :: real, 0.22 :: real))
             [0.21, 0.21]) = [0, 1]"
    by (simp add: np_where_def upt_rec)
  have st: "np_argsort [1, 2] = [0, 1]"
    by (simp add: np_argsort_def upt_rec)
  have ind: "np_searchsorted (map (\<lambda>k. real k / [10000, 10000, 10000] ! 0) [0..<length [0, 1 :: nat]])
               (1 * 0.0001) = 1"
    by (simp add: np_searchsorted_def upt_rec)
  have g: "get [0, 1 :: nat] 1 = Inr 1" "get [1, 2 :: real] 1 = Inr 2"
    by (simp_all add: get_def)
  show ?thesis
    unfolding node_cmaxval_def zr Let_def zu ib bindE_Inr u st ind g
    by (rule refl)
qed

lemma demo_node1:
  "node_cmaxval demo_gals [0, 1] [10000, 10000, 10000] 1 [0.2, 0.3, 0.4] 0.02 1 = Inl IndexError"
proof -
  show ?thesis
    by (rule node_cmaxval_empty_window) (simp_all add: node_zrange_def demo_gals_def)
qed

section \<open>The demo fitter is a constructor's output, and its afterburner fit runs\<close>

lemma demo_init:
  "init [0.2, 0.4] [0.2, 0.4] [0.2, 0.3, 0.4] [0.01, 0.01, 0.01] [1, 5, 30] [20, 20, 20]
        [0.21, 0.3, - 1] [0.001, 0.001, - 1] [19, 19, 19] [0, 0, 0] [0.5] 1 1
        [10000, 10000] [0.2, 0.4] 0.1 20 (Some [0, 1]) = Inr demo_fitter"
  by (simp add: init_def demo_fitter_def)

lemma demo_fit_bias_eratio:
  "fit_bias_eratio demo_env demo_fitter [10, 20] [0, 0] [1, 1] = Inr ([0, 0], [1, 1])"
proof -
  have f: "self_z demo_fitter = [0.2, 0.3, 0.4]" "self_chisq demo_fitter = [1, 5, 30]"
    "self_refmag demo_fitter = [19, 19, 19]" "self_mstar demo_fitter = [20, 20, 20]"
    "self_zredmagic demo_fitter = [0.2, 0.3, 0.4]" "self_zmax demo_fitter = [0.5]"
    "self_zcal demo_fitter = [0.21, 0.3, - 1]" "self_z_err demo_fitter = [0.01, 0.01, 0.01]"
    "self_ab_use demo_fitter = Some [0, 1]" "self_maxchi demo_fitter = 20"
    "self_etamin demo_fitter = 1" "self_corrnodes demo_fitter = [0.2, 0.4]"
    by (simp_all add: demo_fitter_def)
  have c2m: "map (\<lambda>x. np_clip (demo_line 10 20 x) 0.1 20) [0.2, 0.3, 0.4] = [10, 15, 20]"
    by (simp add: np_clip_def demo_line_def)
  have ix: "index_ab (Some [0, 1]) [1, 5, 30 :: real] = Inr [1, 5]"
    "index_ab (Some [0, 1]) [10, 15, 20 :: real] = Inr [10, 15]"
    "index_ab (Some [0, 1]) [19, 19, 19 :: real] = Inr [19, 19]"
    "index_ab (Some [0, 1]) [20, 20, 20 :: real] = Inr [20, 20]"
    "index_ab (Some [0, 1]) [0.2, 0.3, 0.4 :: real] = Inr [0.2, 0.3]"
    by (simp_all add: index_ab_def index_by_def)
  have b1: "broadcast (\<lambda>a b. a < b) [1, 5 :: real] [10, 15] = Inr [True, True]"
    by (simp add: broadcast_def)
  have b2: "broadcast (\<lambda>a b. a < b) [19, 19 :: real]
              (map (\<lambda>m. m - 2.5 * log 10 1) [20, 20]) = Inr [True, True]"
    by (simp add: broadcast_def)
  have b3: "broadcast (\<lambda>a b. a \<and> b) [True, True] [True, True] = Inr [True, True]"
    by (simp add: broadcast_def)
  have b4: "(if 1 < length [0.5 :: real]
             then bindE (index_ab (Some [0, 1]) [0.5 :: real])
                    (\<lambda>zmax_ab. broadcast (\<lambda>a b. a < b) [0.2, 0.3 :: real] zmax_ab)
             else broadcast (\<lambda>a b. a < b) [0.2, 0.3 :: real] [0.5]) = Inr [True, True]"
    by (simp add: broadcast_def)
  have b5: "inplace (\<lambda>a b. a \<and> b) [True, True] [True, True] = Inr [True, True]"
    by (simp add: inplace_def)
  have w: "index_by [0, 1 :: nat] (np_where [True, True]) = Inr [0, 1]"
    by (simp add: np_where_def index_by_def upt_rec)
  have iz: "index_by [0.2, 0.3, 0.4 :: real] [0, 1] = Inr [0.2, 0.3]"
    "index_by [0.21, 0.3, - 1 :: real] [0, 1] = Inr [0.21, 0.3]"
    "index_by [0.01, 0.01, 0.01 :: real] [0, 1] = Inr [0.01, 0.01]"
    by (simp_all add: index_by_def)
  have m: "MedZFitter_fit demo_env nodes x y [a, b] lo hi = Inr [np_clip a lo hi, np_clip b lo hi]"
    for nodes x y a b lo hi
    by (simp add: demo_env_def)
  have cl: "np_clip 0 (- 0.1) 0.1 = 0" "np_clip 1 0.5 1.5 = 1"
    by (simp_all add: np_clip_def)
  have d: "broadcast (\<lambda>a b. a - b) [0.2, 0.3 :: real] [0.21, 0.3] = Inr [- 0.01, 0]"
    by (simp add: broadcast_def)
  have y: "broadcast (\<lambda>a b. a / b) (map (\<lambda>d. 1.4826 * \<bar>d\<bar>) [- 0.01, 0 :: real]) [0.01, 0.01] =
           Inr [1.4826, 0]"
    by (simp add: broadcast_def)
  show ?thesis
    unfolding fit_bias_eratio_def demo_spline bindE_Inr Let_def f c2m ix b1 b2 b3 b4 b5
      option.case w iz d m cl y
    by (rule refl)
qed

lemma draw_randomn_fixed:
  "\<not> redmagic_calib_pz_integrate conf \<Longrightarrow> draw_randomn env conf n g = (replicate n 0, g)"
  "redmagic_calib_pz_integrate conf \<Longrightarrow> draw_randomn env conf n g = random_normal env n g"
  by (simp_all add: draw_randomn_def)

section \<open>The afterburner flag, and a fitter on which raw and corrected redshifts differ\<close>

lemma density_cost_flag:
  "density_cost env (s\<lparr>self_afterburner := b\<rparr>) = density_cost env s"
proof (intro ext)
  fix data
  show "density_cost env (s\<lparr>self_afterburner := b\<rparr>) data = density_cost env s data"
    by (simp add: density_cost_def)
qed

lemma cost_flag: "cost env (s\<lparr>self_afterburner := b\<rparr>) pars = cost env s pars"
proof -
  have a: "chi2max env (s\<lparr>self_afterburner := b\<rparr>) pars = chi2max env s pars"
    by (simp add: chi2max_def)
  have z: "zsamp (s\<lparr>self_afterburner := b\<rparr>) = zsamp s"
    by (simp add: zsamp_def)
  have c: "selection (s\<lparr>self_afterburner := b\<rparr>) = selection s"
    by (intro ext) (simp add: selection_def)
  show ?thesis
    unfolding cost_def a z c density_cost_flag by (rule refl)
qed

lemma wf_demo_fitter_asym: "wf_fitter demo_fitter_asym"
  by (simp add: wf_fitter_def demo_fitter_asym_def demo_fitter_def)

lemma demo_spline_asym:
  "CubicSpline demo_env (self_nodes demo_fitter_asym) [v, w] = Inr (demo_line v w)"
  by (simp add: demo_env_def demo_fitter_asym_def demo_fitter_def small_spline_def
      demo_line_def[abs_def])

lemma demo_asym_fields:
  "self_z demo_fitter_asym = [0.2, 0.3, 0.4]"
  "self_zredmagic demo_fitter_asym = [0.19, 0.29, 0.39]"
  "self_zredmagic_e demo_fitter_asym = [0.02, 0.02, 0.02]"
  "self_chisq demo_fitter_asym = [1, 14.7, 19.9]"
  "self_zmax demo_fitter_asym = [0.395]"
  "self_refmag demo_fitter_asym = [19, 19, 19]"
  "self_mstar demo_fitter_asym = [20, 20, 20]"
  "self_randomn demo_fitter_asym = [0, 0, 0]"
  "self_maxchi demo_fitter_asym = 20"
  "self_etamin demo_fitter_asym = 1"
  "self_volume demo_fitter_asym = [10000, 10000]"
  "self_n0 demo_fitter_asym = 1"
  "self_zrange demo_fitter_asym = [0.2, 0.4]"
  "self_zbinsize demo_fitter_asym = 0.1"
  by (simp_all add: demo_fitter_asym_def demo_fitter_def)

lemma demo_asym_selected:
  "filter (\<lambda>i. self_chisq demo_fitter_asym ! i
                  < min (max (demo_line 10 20 (self_z demo_fitter_asym ! i)) 0.1)
                      (self_maxchi demo_fitter_asym) \<and>
                self_refmag demo_fitter_asym ! i
                  < self_mstar demo_fitter_asym ! i - 2.5 * log 10 (self_etamin demo_fitter_asym) \<and>
                self_zredmagic demo_fitter_asym ! i < zmax_of demo_fitter_asym i)
     [0..<length (self_z demo_fitter_asym)] = [0, 1, 2]"
  by (simp add: demo_asym_fields zmax_of_def upt_rec demo_line_def)

lemma demo_asym_threshold_at_corrected:
  "filter (\<lambda>i. self_chisq demo_fitter_asym ! i
                  < min (max (demo_line 10 20 (self_zredmagic demo_fitter_asym ! i)) 0.1)
                      (self_maxchi demo_fitter_asym) \<and>
                self_refmag demo_fitter_asym ! i
                  < self_mstar demo_fitter_asym ! i - 2.5 * log 10 (self_etamin demo_fitter_asym) \<and>
                self_zredmagic demo_fitter_asym ! i < zmax_of demo_fitter_asym i)
     [0..<length (self_z demo_fitter_asym)] = [0]"
  by (simp add: demo_asym_fields zmax_of_def upt_rec demo_line_def)

lemma demo_asym_cut_at_raw:
  "filter (\<lambda>i. self_chisq demo_fitter_asym ! i
                  < min (max (demo_line 10 20 (self_z demo_fitter_asym ! i)) 0.1)
                      (self_maxchi demo_fitter_asym) \<and>
                self_refmag demo_fitter_asym ! i
                  < self_mstar demo_fitter_asym ! i - 2.5 * log 10 (self_etamin demo_fitter_asym) \<and>
                self_z demo_fitter_asym ! i < zmax_of demo_fitter_asym i)
     [0..<length (self_z demo_fitter_asym)] = [0, 1]"
  by (simp add: demo_asym_fields zmax_of_def upt_rec demo_line_def)

lemma demo_asym_zsamp: "map (zsamp_of demo_fitter_asym) [0, 1, 2] = [0.19, 0.29, 0.39]"
  by (simp add: zsamp_of_def demo_asym_fields)

lemma demo_asym_density: "density_cost demo_env demo_fitter_asym [0.19, 0.29, 0.39] = Inr 0"
proof -
  have h: "histogram demo_env [0.19, 0.29, 0.39] (self_zrange demo_fitter_asym ! 0)
             (self_zrange demo_fitter_asym ! 1 - 0.0001) (self_zbinsize demo_fitter_asym) = Inr [1, 1]"
    by (simp add: demo_env_def demo_asym_fields count_histogram_def upt_rec)
  have l: "length [1::nat, 1] = length (self_volume demo_fitter_asym)"
    by (simp add: demo_asym_fields)
  have two: "{..<2::nat} = {0, 1}" by auto
  show ?thesis
    using density_cost_ok[OF h l] by (simp add: demo_asym_fields two)
qed

section \<open>Effects of a cost evaluation\<close>

text \<open>
  A program keeps the world when each of its steps does: \<^verbatim>\<open>ret\<close>, \<^verbatim>\<open>lift\<close> and
  \<^verbatim>\<open>attr\<close> keep it, and so does a sequence of steps that keep it. No such rule
  holds for \<^verbatim>\<open>assign\<close> or \<^verbatim>\<open>np_random_normal\<close>, so the proof of
  \<open>call_prog_frame\<close> goes through only because the body of \<^verbatim>\<open>__call__\<close> has
  neither an assignment to an attribute nor a draw.
\<close>

lemma frame_ret: "snd (ret x w) = w"
  by (simp add: ret_def)

lemma frame_lift: "snd (lift m w) = w"
  by (simp add: lift_def)

lemma frame_attr: "snd (attr f w) = w"
  by (simp add: attr_def)

lemma frame_bindW:
  assumes "\<And>w. snd (p w) = w" and "\<And>x w. snd (k x w) = w"
  shows "snd (bindW p k w) = w"
proof (cases "p w")
  case (Pair r w1)
  then have "w1 = w" using assms(1)[of w] by simp
  with Pair show ?thesis
    by (cases r) (simp_all add: bindW_def assms(2))
qed

lemma frame_if:
  assumes "snd (p w) = w" and "snd (q w) = w"
  shows "snd ((if c then p else q) w) = w"
  using assms by simp

lemma call_prog_frame: "snd (call_prog env pars w) = w"
  unfolding call_prog_def Let_def
  by (intro frame_bindW frame_attr frame_lift frame_ret frame_if)

lemma bindW_attr: "bindW (attr f) k w = k (f (w_self w)) w"
  by (simp add: bindW_def attr_def)

lemma bindW_lift: "bindW (lift m) k w = (case m of Inl e \<Rightarrow> (Inl e, w) | Inr v \<Rightarrow> k v w)"
  by (cases m) (simp_all add: bindW_def lift_def)

lemma call_prog_value: "fst (call_prog env pars w) = cost env (w_self w) pars"
  by (simp add: call_prog_def bindW_attr bindW_lift ret_def cost_def chi2max_def zsamp_def
      selection_def density_cost_def bindE_def Let_def split: sum.splits cong: if_cong)

lemma call_prog_pure: "call_prog env pars w = (cost env (w_self w) pars, w)"
  by (rule prod_eqI) (simp_all add: call_prog_value call_prog_frame)

lemma eval_all_pure: "eval_all env ps w = (map (\<lambda>q. cost env (w_self w) q) ps, w)"
  by (induction ps) (simp_all add: call_prog_pure)

lemma cost_generator_free: "cost (env\<lparr>random_normal := rn\<rparr>) s pars = cost env s pars"
proof -
  have "density_cost (env\<lparr>random_normal := rn\<rparr>) s data = density_cost env s data" for data
    by (simp add: density_cost_def)
  then have dc: "density_cost (env\<lparr>random_normal := rn\<rparr>) s = density_cost env s"
    by (intro ext)
  show ?thesis
    by (simp add: cost_def chi2max_def dc cong: if_cong)
qed

lemma randomn_prog_draws:
  "redmagic_calib_pz_integrate conf \<Longrightarrow>
   randomn_prog env conf n w =
     (Inr (fst (random_normal env n (w_rng w))), w\<lparr>w_rng := snd (random_normal env n (w_rng w))\<rparr>)"
  by (simp add: randomn_prog_def np_random_normal_def)

lemma demo_draw_advances:
  "snd (randomn_prog demo_env (demo_conf\<lparr>redmagic_calib_pz_integrate := True\<rparr>) 3 demo_world) =
     demo_world\<lparr>w_rng := 1\<rparr>"
  by (simp add: randomn_prog_def np_random_normal_def demo_env_def demo_world_def)

lemma demo_assign_changes:
  "w_self (snd (set_afterburner_prog True demo_world)) = demo_fitter\<lparr>self_afterburner := True\<rparr>"
  by (simp add: set_afterburner_prog_def assign_def demo_world_def)

lemma demo_cost_none: "cost demo_env demo_fitter [0, 0] = Inr 100000000000"
proof -
  have "\<not> passes (demo_line 0 0) demo_fitter i" if "i < 3" for i
  proof -
    from that have "i = 0 \<or> i = 1 \<or> i = 2" by auto
    then show ?thesis
      by (auto simp: passes_def demo_fitter_def np_clip_def demo_line_def)
  qed
  moreover have "length (self_z demo_fitter) = 3" by (simp add: demo_fitter_def)
  ultimately have "survivors (demo_line 0 0) demo_fitter = []"
    by (simp add: survivors_def filter_empty_conv)
  then show ?thesis
    by (simp add: cost_wf[OF wf_demo_fitter demo_spline])
qed

section \<open>The threshold of a node comes from its window\<close>

text \<open>
  When the search of a node returns a value, the value is the \<open>chisq\<close> of a possible
  galaxy whose redshift lies (strictly, as the source compares) inside the window of
  the node.
\<close>

lemma node_cmaxval_in_window:
  assumes rp: "list_all (\<lambda>i. i < length gals) red_poss"
    and res: "node_cmaxval gals red_poss test_vol n0 nodes zbinsize j = Inr c"
  shows "\<exists>i\<in>set (window_galaxies gals red_poss (node_zrange nodes zbinsize j)).
           c = gal_chisq (gals ! i)"
proof -
  let ?zr = "node_zrange nodes zbinsize j"
  let ?W = "\<lambda>x. x > fst ?zr \<and> x < snd ?zr"
  let ?zp = "map (\<lambda>i. map gal_zuse gals ! i) red_poss"
  let ?u = "np_where (map ?W ?zp)"
  let ?ru = "map (\<lambda>k. red_poss ! k) ?u"
  let ?cs = "map (\<lambda>i. map gal_chisq gals ! i) ?ru"
  have rp': "\<And>i. i \<in> set red_poss \<Longrightarrow> i < length gals"
    using rp by (simp add: list_all_iff)
  have ib1: "index_by (map gal_zuse gals) red_poss = Inr ?zp"
    using rp by (simp add: index_by_def)
  have ub: "list_all (\<lambda>k. k < length red_poss) ?u"
    using np_where_bound[of "map ?W ?zp"] by simp
  have ub': "\<And>k. k \<in> set ?u \<Longrightarrow> k < length red_poss"
    using ub by (simp add: list_all_iff)
  have ib2: "index_by red_poss ?u = Inr ?ru"
    using ub by (rule index_by_ok)
  have rub: "list_all (\<lambda>i. i < length (map gal_chisq gals)) ?ru"
    using rp' ub' by (simp add: list_all_iff)
  have ib3: "index_by (map gal_chisq gals) ?ru = Inr ?cs"
    using rub by (rule index_by_ok)
  define ind where "ind = np_searchsorted (map (\<lambda>k. real k / test_vol ! j) [0..<length ?u])
                            (n0 * 0.0001)"
  define st where "st = np_argsort ?cs"
  have r: "bindE (get st ind) (\<lambda>a. bindE (get ?u a) (\<lambda>b.
             bindE (get red_poss b) (\<lambda>c. get (map gal_chisq gals) c))) = Inr c"
    using res unfolding node_cmaxval_def Let_def ib1 bindE_Inr ib2 ib3 ind_def st_def
    by simp
  have i1: "ind < length st"
    using r by (cases "ind < length st") (simp_all add: get_def bindE_def)
  then have g1: "get st ind = Inr (st ! ind)" by (simp add: get_def)
  define a where "a = st ! ind"
  have r2: "bindE (get ?u a) (\<lambda>b. bindE (get red_poss b) (\<lambda>c. get (map gal_chisq gals) c)) = Inr c"
    using r unfolding g1 bindE_Inr a_def .
  have i2: "a < length ?u"
    using r2 by (cases "a < length ?u") (simp_all add: get_def bindE_def)
  then have g2: "get ?u a = Inr (?u ! a)" by (simp add: get_def)
  define b where "b = ?u ! a"
  have bu: "b \<in> set ?u" using i2 unfolding b_def by (rule nth_mem)
  then have i3: "b < length red_poss" by (rule ub')
  have wb: "?W (?zp ! b)"
    using bu i3 by (simp add: np_where_def)
  have r3: "bindE (get red_poss b) (\<lambda>c. get (map gal_chisq gals) c) = Inr c"
    using r2 unfolding g2 bindE_Inr b_def .
  have g3: "get red_poss b = Inr (red_poss ! b)" using i3 by (simp add: get_def)
  define i where "i = red_poss ! b"
  have im: "i \<in> set red_poss" using i3 unfolding i_def by (rule nth_mem)
  then have i4: "i < length gals" by (rule rp')
  have r4: "get (map gal_chisq gals) i = Inr c"
    using r3 unfolding g3 bindE_Inr i_def .
  have c: "c = gal_chisq (gals ! i)"
    using r4 i4 by (simp add: get_def)
  have "?zp ! b = gal_zuse (gals ! i)"
    using i3 i4 by (simp add: i_def)
  with wb have "?W (gal_zuse (gals ! i))" by simp
  with im have "i \<in> set (window_galaxies gals red_poss ?zr)"
    by (simp add: window_galaxies_def)
  with c show ?thesis by blast
qed

lemma demo_window0: "window_galaxies demo_gals [0, 1] (0.2, 0.22) = [0, 1]"
  by (simp add: window_galaxies_def demo_gals_def)

lemma demo_window1: "window_galaxies demo_gals [0, 1] (0.29, 0.31) = []"
  by (simp add: window_galaxies_def demo_gals_def)
section \<open>The empty selection\<close>

text \<open>
  Claim C1. For every parameter vector, when the threshold spline is built and no galaxy
  passes the three cuts together (chi-square below the clipped threshold, reference
  magnitude below the luminosity cut, corrected redshift below its maximum), the cost
  function returns the fixed value \<open>1e11\<close> and raises nothing.
\<close>

theorem empty_selection_penalty:
  assumes "wf_fitter s" and "CubicSpline env (self_nodes s) pars = Inr spl"
    and "\<forall>i<length (self_z s). \<not> passes spl s i"
  shows "fst (call env s pars) = Inr 100000000000"
proof -
  have "survivors spl s = []"
    using assms(3) by (simp add: survivors_def filter_empty_conv)
  then show ?thesis
    by (simp add: call_def cost_wf[OF assms(1,2)])
qed

lemma demo_none_pass: "i < 3 \<Longrightarrow> \<not> passes (demo_line 0 0) demo_fitter i"
proof -
  assume "i < 3"
  then have "i = 0 \<or> i = 1 \<or> i = 2" by auto
  then show ?thesis
    by (auto simp: passes_def demo_fitter_def np_clip_def demo_line_def)
qed

theorem empty_selection_penalty_witness:
  "wf_fitter demo_fitter \<and>
   CubicSpline demo_env (self_nodes demo_fitter) [0, 0] =
     Inr (demo_line 0 0) \<and>
   fst (call demo_env demo_fitter [0, 0]) = Inr 100000000000"
proof -
  have n: "length (self_z demo_fitter) = 3" by (simp add: demo_fitter_def)
  have h: "\<forall>i<length (self_z demo_fitter).
             \<not> passes (demo_line 0 0) demo_fitter i"
    unfolding n using demo_none_pass by blast
  show ?thesis
    using empty_selection_penalty[OF wf_demo_fitter demo_spline h] wf_demo_fitter
      demo_spline[of 0 0]
    by blast
qed

section \<open>Raw redshift for the threshold, corrected redshift for the cut\<close>

text \<open>
  Claim C2. In every evaluation of the cost function on a well-formed fitter whose spline
  is built, the value returned is decided by the galaxies whose chi-square is below the
  spline at the galaxy's raw redshift \<open>z\<close>, clipped by \<open>min (max _ 0.1) maxchi\<close> (so within
  \<open>[0.1, maxchi]\<close> when that interval is not empty), whose magnitude is below the
  luminosity cut, and whose corrected redshift \<open>zredmagic\<close> is below \<open>zmax\<close>: it is
  \<open>1e11\<close> when there is none and the density cost of their sampled redshifts otherwise.
  The threshold does not change when the corrected redshifts change, and neither the
  value nor the selection depends on the afterburner flag.
\<close>

theorem threshold_raw_cut_corrected:
  assumes "wf_fitter s" and "CubicSpline env (self_nodes s) pars = Inr spl"
  shows "fst (call env s pars) =
           (let gd = filter (\<lambda>i. self_chisq s ! i < min (max (spl (self_z s ! i)) 0.1) (self_maxchi s) \<and>
                                   self_refmag s ! i < self_mstar s ! i - 2.5 * log 10 (self_etamin s) \<and>
                                   self_zredmagic s ! i < zmax_of s i)
                        [0..<length (self_z s)]
            in if gd = [] then Inr 100000000000
               else density_cost env s (map (zsamp_of s) gd)) \<and>
         fst (call env (s\<lparr>self_afterburner := b\<rparr>) pars) = fst (call env s pars) \<and>
         chi2max env s pars =
           Inr (map (\<lambda>x. min (max (spl x) 0.1) (self_maxchi s)) (self_z s)) \<and>
         chi2max env (s\<lparr>self_zredmagic := zr, self_zredmagic_e := ze, self_afterburner := b\<rparr>) pars =
           chi2max env s pars \<and>
         (0.1 \<le> self_maxchi s \<longrightarrow>
            list_all (\<lambda>x. 0.1 \<le> min (max (spl x) 0.1) (self_maxchi s) \<and>
                          min (max (spl x) 0.1) (self_maxchi s) \<le> self_maxchi s) (self_z s)) \<and>
         bindE (chi2max env s pars) (selection s) =
           Inr (filter (\<lambda>i. self_chisq s ! i < min (max (spl (self_z s ! i)) 0.1) (self_maxchi s) \<and>
                            self_refmag s ! i < self_mstar s ! i - 2.5 * log 10 (self_etamin s) \<and>
                            self_zredmagic s ! i < zmax_of s i)
                  [0..<length (self_z s)]) \<and>
         bindE (chi2max env (s\<lparr>self_afterburner := b\<rparr>) pars) (selection (s\<lparr>self_afterburner := b\<rparr>)) =
           bindE (chi2max env s pars) (selection s)"
proof -
  have sv: "survivors spl s =
            filter (\<lambda>i. self_chisq s ! i < min (max (spl (self_z s ! i)) 0.1) (self_maxchi s) \<and>
                         self_refmag s ! i < self_mstar s ! i - 2.5 * log 10 (self_etamin s) \<and>
                         self_zredmagic s ! i < zmax_of s i)
              [0..<length (self_z s)]"
    by (simp add: survivors_def passes_def[abs_def] np_clip_def)
  have k: "fst (call env s pars) =
           (let gd = filter (\<lambda>i. self_chisq s ! i < min (max (spl (self_z s ! i)) 0.1) (self_maxchi s) \<and>
                                   self_refmag s ! i < self_mstar s ! i - 2.5 * log 10 (self_etamin s) \<and>
                                   self_zredmagic s ! i < zmax_of s i)
                        [0..<length (self_z s)]
            in if gd = [] then Inr 100000000000
               else density_cost env s (map (zsamp_of s) gd))"
    unfolding call_def fst_conv cost_wf[OF assms] sv Let_def by (rule refl)
  have f: "fst (call env (s\<lparr>self_afterburner := b\<rparr>) pars) = fst (call env s pars)"
    by (simp add: call_def cost_flag)
  have a: "chi2max env s pars =
           Inr (map (\<lambda>x. min (max (spl x) 0.1) (self_maxchi s)) (self_z s))"
    using chi2max_ok[OF assms(2)] by (simp add: np_clip_def)
  have b: "chi2max env (s\<lparr>self_zredmagic := zr, self_zredmagic_e := ze, self_afterburner := b\<rparr>) pars =
           chi2max env s pars"
    by (simp add: chi2max_def)
  have c: "0.1 \<le> self_maxchi s \<longrightarrow>
            list_all (\<lambda>x. 0.1 \<le> min (max (spl x) 0.1) (self_maxchi s) \<and>
                          min (max (spl x) 0.1) (self_maxchi s) \<le> self_maxchi s) (self_z s)"
    by (auto simp: list_all_iff)
  have d: "bindE (chi2max env s pars) (selection s) =
           Inr (filter (\<lambda>i. self_chisq s ! i < min (max (spl (self_z s ! i)) 0.1) (self_maxchi s) \<and>
                            self_refmag s ! i < self_mstar s ! i - 2.5 * log 10 (self_etamin s) \<and>
                            self_zredmagic s ! i < zmax_of s i)
                  [0..<length (self_z s)])"
    unfolding chi2max_ok[OF assms(2)] bindE_Inr selection_wf[OF assms(1)] sv by (rule refl)
  have e: "bindE (chi2max env (s\<lparr>self_afterburner := b\<rparr>) pars) (selection (s\<lparr>self_afterburner := b\<rparr>)) =
           bindE (chi2max env s pars) (selection s)"
    by (simp add: chi2max_def selection_def[abs_def])
  from k f a b c d e show ?thesis by blast
qed

theorem threshold_raw_cut_corrected_witness:
  "self_z demo_fitter_asym = [0.2, 0.3, 0.4] \<and>
   self_zredmagic demo_fitter_asym = [0.19, 0.29, 0.39] \<and>
   self_zmax demo_fitter_asym = [0.395] \<and>
   self_chisq demo_fitter_asym = [1, 14.7, 19.9] \<and>
   chi2max demo_env demo_fitter_asym [10, 20] = Inr [10, 15, 20] \<and>
   bindE (chi2max demo_env demo_fitter_asym [10, 20]) (selection demo_fitter_asym) = Inr [0, 1, 2] \<and>
   fst (call demo_env demo_fitter_asym [10, 20]) = Inr 0 \<and>
   fst (call demo_env (demo_fitter_asym\<lparr>self_afterburner := False\<rparr>) [10, 20]) = Inr 0 \<and>
   filter (\<lambda>i. self_chisq demo_fitter_asym ! i
                  < min (max (demo_line 10 20 (self_zredmagic demo_fitter_asym ! i)) 0.1)
                      (self_maxchi demo_fitter_asym) \<and>
                self_refmag demo_fitter_asym ! i
                  < self_mstar demo_fitter_asym ! i - 2.5 * log 10 (self_etamin demo_fitter_asym) \<and>
                self_zredmagic demo_fitter_asym ! i < zmax_of demo_fitter_asym i)
     [0..<length (self_z demo_fitter_asym)] = [0] \<and>
   filter (\<lambda>i. self_chisq demo_fitter_asym ! i
                  < min (max (demo_line 10 20 (self_z demo_fitter_asym ! i)) 0.1)
                      (self_maxchi demo_fitter_asym) \<and>
                self_refmag demo_fitter_asym ! i
                  < self_mstar demo_fitter_asym ! i - 2.5 * log 10 (self_etamin demo_fitter_asym) \<and>
                self_z demo_fitter_asym ! i < zmax_of demo_fitter_asym i)
     [0..<length (self_z demo_fitter_asym)] = [0, 1]"
proof -
  note t = threshold_raw_cut_corrected[OF wf_demo_fitter_asym demo_spline_asym[of 10 20],
      where zr = "self_zredmagic demo_fitter_asym" and ze = "self_zredmagic_e demo_fitter_asym"
        and b = False]
  have thr: "map (\<lambda>x. min (max (demo_line 10 20 x) 0.1) (self_maxchi demo_fitter_asym))
               (self_z demo_fitter_asym) = [10, 15, 20]"
    by (simp add: demo_asym_fields demo_line_def)
  have ne: "([0, 1, 2 :: nat] = []) = False" by simp
  from t have a: "chi2max demo_env demo_fitter_asym [10, 20] = Inr [10, 15, 20]"
    unfolding thr by blast
  from t have c: "bindE (chi2max demo_env demo_fitter_asym [10, 20]) (selection demo_fitter_asym) =
      Inr [0, 1, 2]"
    unfolding demo_asym_selected by blast
  from t have "fst (call demo_env demo_fitter_asym [10, 20]) =
      density_cost demo_env demo_fitter_asym (map (zsamp_of demo_fitter_asym) [0, 1, 2])"
    unfolding demo_asym_selected Let_def ne if_False by blast
  then have k: "fst (call demo_env demo_fitter_asym [10, 20]) = Inr 0"
    unfolding demo_asym_zsamp demo_asym_density .
  from t k have f: "fst (call demo_env (demo_fitter_asym\<lparr>self_afterburner := False\<rparr>) [10, 20]) = Inr 0"
    by simp
  from a c k f demo_asym_fields(1,2,5,4) demo_asym_threshold_at_corrected demo_asym_cut_at_raw
  show ?thesis by blast
qed

section \<open>The cost of a non-empty selection\<close>

text \<open>
  Claim C3. When at least one galaxy passes the cuts, the histogram of the survivors'
  sampled redshifts (\<open>randomn * zredmagic_e + zredmagic\<close>) is taken with \<^verbatim>\<open>min\<close> the
  lower end of the range, \<^verbatim>\<open>max\<close> the upper end less \<open>0.0001\<close> and the configured bin
  size, and with one volume per bin the cost returned is the sum over the bins of
  \<open>((count / volume - n0 * 1e-4) / (sqrt (n0 * 1e-4 * volume) / volume))\<^sup>2\<close>.
\<close>

theorem cost_is_density_mismatch:
  assumes "wf_fitter s" and "CubicSpline env (self_nodes s) pars = Inr spl"
    and "survivors spl s \<noteq> []"
    and "histogram env (map (zsamp_of s) (survivors spl s))
           (self_zrange s ! 0) (self_zrange s ! 1 - 0.0001) (self_zbinsize s) = Inr h"
    and "length h = length (self_volume s)"
  shows "fst (call env s pars) =
         Inr (\<Sum>b<length h.
               ((real (h ! b) / self_volume s ! b - self_n0 s * 0.0001) /
                (sqrt (self_n0 s * 0.0001 * self_volume s ! b) / self_volume s ! b)) ^ 2)"
  using assms(3) by (simp add: call_def cost_wf[OF assms(1,2)] density_cost_ok[OF assms(4,5)])

theorem cost_is_density_mismatch_witness:
  "survivors (demo_line 10 20) demo_fitter = [0, 1] \<and>
   map (zsamp_of demo_fitter) [0, 1] = [0.2, 0.3] \<and>
   histogram demo_env [0.2, 0.3] (self_zrange demo_fitter ! 0)
     (self_zrange demo_fitter ! 1 - 0.0001) (self_zbinsize demo_fitter) = Inr [1, 1] \<and>
   fst (call demo_env demo_fitter [10, 20]) = Inr 0"
proof -
  have h3: "survivors (demo_line 10 20) demo_fitter \<noteq> []"
    by (simp add: demo_survivors)
  have h4: "histogram demo_env
              (map (zsamp_of demo_fitter)
                 (survivors (demo_line 10 20) demo_fitter))
              (self_zrange demo_fitter ! 0) (self_zrange demo_fitter ! 1 - 0.0001)
              (self_zbinsize demo_fitter) = Inr [1, 1]"
    unfolding demo_survivors demo_zsamp by (rule demo_hist)
  have h5: "length [1::nat, 1] = length (self_volume demo_fitter)"
    by (simp add: demo_fitter_def)
  have v: "self_volume demo_fitter = [10000, 10000]" "self_n0 demo_fitter = 1"
    by (simp_all add: demo_fitter_def)
  have two: "{..<2::nat} = {0, 1}" by auto
  have "fst (call demo_env demo_fitter [10, 20]) = Inr 0"
    using cost_is_density_mismatch[OF wf_demo_fitter demo_spline h3 h4 h5]
    by (simp add: v two)
  then show ?thesis using demo_survivors demo_zsamp demo_hist by blast
qed

section \<open>\<^verbatim>\<open>fit\<close> with the afterburner and no parameters\<close>

text \<open>
  Claim C10. A call of \<^verbatim>\<open>fit\<close> with \<^verbatim>\<open>afterburner=True\<close> and \<^verbatim>\<open>biaspars\<close> or
  \<^verbatim>\<open>eratiopars\<close> missing raises a RuntimeError, and the stored corrected redshifts
  \<^verbatim>\<open>_zredmagic\<close> and \<^verbatim>\<open>_zredmagic_e\<close> are what they were before the call. (The object
  is unchanged when the held-out index set is missing too, and has only its afterburner
  flag set otherwise.)
\<close>

theorem fit_afterburner_needs_pars:
  assumes "bp = None \<or> ep = None"
  shows "fst (fit env s p0 bp ep True) =
           Inl (RuntimeError (if self_ab_use s = None
                              then ''Must set afterburner_use if using the afterburner''
                              else ''Must set biaspars, eratiopars if using the afterburner'')) \<and>
         self_zredmagic (snd (fit env s p0 bp ep True)) = self_zredmagic s \<and>
         self_zredmagic_e (snd (fit env s p0 bp ep True)) = self_zredmagic_e s \<and>
         snd (fit env s p0 bp ep True) =
           (if self_ab_use s = None then s else s\<lparr>self_afterburner := True\<rparr>)"
proof (cases "self_ab_use s = None")
  case True
  show ?thesis
    unfolding fit_no_ab_use[OF True] fst_conv snd_conv if_P[OF True]
    by (intro conjI refl)
next
  case False
  have a: "self_zredmagic (s\<lparr>self_afterburner := True\<rparr>) = self_zredmagic s"
    "self_zredmagic_e (s\<lparr>self_afterburner := True\<rparr>) = self_zredmagic_e s"
    by simp_all
  show ?thesis
    unfolding fit_no_pars[OF False assms] fst_conv snd_conv if_not_P[OF False] a
    by (intro conjI refl)
qed

theorem fit_afterburner_needs_pars_witness:
  "fst (fit demo_env demo_fitter_ab [10, 20] None (Some [2, 2]) True) =
     Inl (RuntimeError ''Must set biaspars, eratiopars if using the afterburner'') \<and>
   self_zredmagic (snd (fit demo_env demo_fitter_ab [10, 20] None (Some [2, 2]) True)) =
     [0.19, 0.29, 0.39] \<and>
   self_zredmagic_e (snd (fit demo_env demo_fitter_ab [10, 20] None (Some [2, 2]) True)) =
     [0.02, 0.02, 0.02]"
proof -
  have h: "(None :: real list option) = None \<or> Some [2::real, 2] = None" by simp
  have f: "self_ab_use demo_fitter_ab \<noteq> None"
    "self_zredmagic demo_fitter_ab = [0.19, 0.29, 0.39]"
    "self_zredmagic_e demo_fitter_ab = [0.02, 0.02, 0.02]"
    by (simp_all add: demo_fitter_ab_def demo_fitter_def)
  note t = fit_afterburner_needs_pars[OF h, of demo_env demo_fitter_ab "[10, 20]"]
  show ?thesis
    using t unfolding if_not_P[OF f(1)] f(2,3) by blast
qed

section \<open>\<^verbatim>\<open>fit\<close> without the afterburner\<close>

text \<open>
  Claim C5. On a fitter with arrays of fitting sizes, \<^verbatim>\<open>fit\<close> with \<^verbatim>\<open>afterburner=False\<close>
  leaves the object with the corrected redshifts equal to the raw redshifts \<open>z\<close>, the
  corrected errors equal to the raw errors \<open>z_err\<close>, and \<^verbatim>\<open>mstar\<close> computed at the raw
  redshifts; the bias and error-ratio parameters passed play no part; and the same holds
  when the call follows any call of \<^verbatim>\<open>fit\<close> with \<^verbatim>\<open>afterburner=True\<close>.
\<close>

theorem fit_without_afterburner_resets:
  assumes "wf_fitter s"
  shows "snd (fit env s p0 bp ep False) =
           s\<lparr>self_afterburner := False, self_zredmagic := self_z s,
             self_zredmagic_e := self_z_err s,
             self_mstar := map (zredstr_mstar env) (self_z s)\<rparr> \<and>
         fit env s p0 bp ep False = fit env s p0 None None False \<and>
         self_zredmagic (snd (fit env (snd (fit env s p1 bp1 ep1 True)) p0 bp ep False)) = self_z s \<and>
         self_zredmagic_e (snd (fit env (snd (fit env s p1 bp1 ep1 True)) p0 bp ep False)) =
           self_z_err s \<and>
         self_mstar (snd (fit env (snd (fit env s p1 bp1 ep1 True)) p0 bp ep False)) =
           map (zredstr_mstar env) (self_z s)"
proof -
  define s1 where "s1 = snd (fit env s p1 bp1 ep1 True)"
  have w: "wf_fitter s1" unfolding s1_def by (rule fit_wf[OF assms])
  have raw: "self_z s1 = self_z s" "self_z_err s1 = self_z_err s"
    unfolding s1_def by (rule fit_keeps_raw)+
  define s2 where "s2 = snd (fit env s1 p0 bp ep False)"
  have e: "s2 = s1\<lparr>self_afterburner := False, self_zredmagic := self_z s1,
             self_zredmagic_e := self_z_err s1,
             self_mstar := map (zredstr_mstar env) (self_z s1)\<rparr>"
    unfolding s2_def by (rule fit_False_state[OF w])
  have c3: "self_zredmagic s2 = self_z s" by (subst e) (simp add: raw)
  have c4: "self_zredmagic_e s2 = self_z_err s" by (subst e) (simp add: raw)
  have c5: "self_mstar s2 = map (zredstr_mstar env) (self_z s)" by (subst e) (simp add: raw)
  show ?thesis
    using fit_False_state[OF assms, of env p0 bp ep] fit_False_ignores_pars[of env s p0 bp ep]
      c3 c4 c5
    unfolding s2_def s1_def by blast
qed

theorem fit_without_afterburner_resets_witness:
  "self_zredmagic (snd (fit demo_env demo_fitter [10, 20] (Some [0.01, 0.01]) (Some [2, 2]) True)) =
     [0.19, 0.29, 0.39] \<and>
   self_zredmagic
     (snd (fit demo_env
             (snd (fit demo_env demo_fitter [10, 20] (Some [0.01, 0.01]) (Some [2, 2]) True))
             [10, 20] (Some [0.05, 0.05]) (Some [3, 3]) False)) = [0.2, 0.3, 0.4] \<and>
   self_zredmagic_e
     (snd (fit demo_env
             (snd (fit demo_env demo_fitter [10, 20] (Some [0.01, 0.01]) (Some [2, 2]) True))
             [10, 20] (Some [0.05, 0.05]) (Some [3, 3]) False)) = [0.01, 0.01, 0.01] \<and>
   self_mstar
     (snd (fit demo_env
             (snd (fit demo_env demo_fitter [10, 20] (Some [0.01, 0.01]) (Some [2, 2]) True))
             [10, 20] (Some [0.05, 0.05]) (Some [3, 3]) False)) = [20, 20, 20]"
proof -
  have f: "self_z demo_fitter = [0.2, 0.3, 0.4]" "self_z_err demo_fitter = [0.01, 0.01, 0.01]"
    by (simp_all add: demo_fitter_def)
  have m: "map (zredstr_mstar demo_env) [0.2, 0.3, 0.4] = [20, 20, 20]"
    by (simp add: demo_env_def)
  have a: "self_zredmagic demo_fitter_ab = [0.19, 0.29, 0.39]"
    by (simp add: demo_fitter_ab_def)
  note t = fit_without_afterburner_resets[OF wf_demo_fitter, of demo_env "[10, 20]"
      "Some [0.05, 0.05]" "Some [3, 3]" "[10, 20]" "Some [0.01, 0.01]" "Some [2, 2]"]
  show ?thesis
    using t a unfolding f m demo_fit_ab by blast
qed

section \<open>A repeatable objective\<close>

text \<open>
  Claim C4. For a fixed fitter the cost is a function of the parameter vector alone, and
  no evaluation draws from the random generator. The body of \<^verbatim>\<open>__call__\<close>, run as a
  program on the world made of the object and the state of the generator
  (\<^verbatim>\<open>call_prog\<close>), returns the world it was given and the value of \<^verbatim>\<open>cost\<close> on the
  object; a sequence of evaluations (\<^verbatim>\<open>eval_all\<close>), as the minimiser makes them,
  leaves the object and the generator as they were and returns at every place the cost
  of the parameters at that place, so equal parameters give equal costs; the value
  depends neither on the state of the generator nor on the generator itself; a call
  leaves the object as it was, so the cost at \<open>p\<close> is the same after any other
  evaluation; \<^verbatim>\<open>fit\<close> keeps the stored draws \<^verbatim>\<open>_randomn\<close>; and when \<^verbatim>\<open>fit\<close> returns
  parameters, they are what the minimiser returns for the cost function of the one
  object the call has set up. The draw of \<^verbatim>\<open>run\<close> (\<^verbatim>\<open>randomn_prog\<close>) does advance the
  generator, and an assignment to an attribute does change the object.
\<close>

theorem cost_evaluation_repeatable:
  "call_prog env p w = (fst (call env (w_self w) p), w) \<and>
   eval_all env ps w = (map (\<lambda>q. fst (call env (w_self w) q)) ps, w) \<and>
   (\<forall>i j. i < length ps \<and> j < length ps \<and> ps ! i = ps ! j \<longrightarrow>
      fst (eval_all env ps w) ! i = fst (eval_all env ps w) ! j) \<and>
   fst (call_prog env p (w\<lparr>w_rng := g\<rparr>)) = fst (call_prog env p w) \<and>
   fst (call_prog (env\<lparr>random_normal := rn\<rparr>) p w) = fst (call_prog env p w) \<and>
   snd (call env s p) = s \<and>
   fst (call env (snd (call env s q)) p) = fst (call env s p) \<and>
   fst (call (env\<lparr>random_normal := rn\<rparr>) s p) = fst (call env s p) \<and>
   self_randomn (snd (fit env s p0 bp ep ab)) = self_randomn s \<and>
   (\<forall>r. fst (fit env s p0 bp ep ab) = Inr r \<longrightarrow>
      fmin env (\<lambda>pars. fst (call env (snd (fit env s p0 bp ep ab)) pars)) p0 = Inr r)"
proof -
  have c1: "call_prog env p w = (fst (call env (w_self w) p), w)"
    by (simp add: call_prog_pure call_def)
  have c2: "eval_all env ps w = (map (\<lambda>q. fst (call env (w_self w) q)) ps, w)"
    by (simp add: eval_all_pure call_def)
  have c3: "\<forall>i j. i < length ps \<and> j < length ps \<and> ps ! i = ps ! j \<longrightarrow>
      fst (eval_all env ps w) ! i = fst (eval_all env ps w) ! j"
    by (simp add: eval_all_pure)
  have c4: "fst (call_prog env p (w\<lparr>w_rng := g\<rparr>)) = fst (call_prog env p w)"
    by (simp add: call_prog_pure)
  have c5: "fst (call_prog (env\<lparr>random_normal := rn\<rparr>) p w) = fst (call_prog env p w)"
    by (simp add: call_prog_pure cost_generator_free)
  have a: "snd (call env s p) = s" by (simp add: call_def)
  have b: "fst (call env (snd (call env s q)) p) = fst (call env s p)"
    by (simp add: call_def)
  have c: "fst (call (env\<lparr>random_normal := rn\<rparr>) s p) = fst (call env s p)"
    by (simp add: call_def cost_generator_free)
  have d: "self_randomn (snd (fit env s p0 bp ep ab)) = self_randomn s"
    by (rule fit_keeps_raw)
  have e: "fmin env (\<lambda>pars. fst (call env (snd (fit env s p0 bp ep ab)) pars)) p0 = Inr r"
    if h: "fst (fit env s p0 bp ep ab) = Inr r" for r
  proof (cases "self_ab_use s = None \<and> ab")
    case True
    then have "fst (fit env s p0 bp ep ab) =
        Inl (RuntimeError ''Must set afterburner_use if using the afterburner'')"
      by (simp add: fit_def)
    with h show ?thesis by simp
  next
    case False
    then have c: "(self_ab_use s = None \<and> ab) = False" by simp
    obtain o1 s2 where sc: "set_corrected env (s\<lparr>self_afterburner := ab\<rparr>) bp ep ab = (o1, s2)"
      by force
    show ?thesis
    proof (cases o1)
      case (Inl err)
      have "fit env s p0 bp ep ab = (Inl err, s2)"
        unfolding fit_def c if_False Let_def sc Inl by simp
      with h show ?thesis by simp
    next
      case (Inr u)
      have "fit env s p0 bp ep ab =
            (fmin env (\<lambda>pars. fst (call env (s2\<lparr>self_mstar := map (zredstr_mstar env) (self_zredmagic s2)\<rparr>) pars)) p0,
             s2\<lparr>self_mstar := map (zredstr_mstar env) (self_zredmagic s2)\<rparr>)"
        unfolding fit_def c if_False Let_def sc Inr by simp
      with h show ?thesis by simp
    qed
  qed
  from c1 c2 c3 c4 c5 a b c d e show ?thesis by blast
qed

theorem cost_evaluation_repeatable_witness:
  "eval_all demo_env [[10, 20], [0, 0], [10, 20]] demo_world =
     ([Inr 0, Inr 100000000000, Inr 0], demo_world) \<and>
   call_prog demo_env [10, 20] (demo_world\<lparr>w_rng := 7\<rparr>) = (Inr 0, demo_world\<lparr>w_rng := 7\<rparr>) \<and>
   snd (randomn_prog demo_env (demo_conf\<lparr>redmagic_calib_pz_integrate := True\<rparr>) 3 demo_world) =
     demo_world\<lparr>w_rng := 1\<rparr> \<and>
   w_self (snd (set_afterburner_prog True demo_world)) = demo_fitter\<lparr>self_afterburner := True\<rparr> \<and>
   self_randomn (snd (fit demo_env demo_fitter [10, 20] None None False)) = [0, 0, 0]"
proof -
  have v: "fst (call demo_env demo_fitter [10, 20]) = Inr 0"
    "fst (call demo_env demo_fitter [0, 0]) = Inr 100000000000"
    by (simp_all add: call_def demo_cost demo_cost_none)
  have r: "self_randomn demo_fitter = [0, 0, 0]" by (simp add: demo_fitter_def)
  have ws: "w_self demo_world = demo_fitter" "w_self (demo_world\<lparr>w_rng := 7\<rparr>) = demo_fitter"
    by (simp_all add: demo_world_def)
  note t1 = cost_evaluation_repeatable[of demo_env "[10, 20]" demo_world
      "[[10, 20], [0, 0], [10, 20]]" 7 "\<lambda>n g. (replicate n 1, g)" demo_fitter "[0, 0]"
      "[10, 20]" None None False]
  note t2 = cost_evaluation_repeatable[of demo_env "[10, 20]" "demo_world\<lparr>w_rng := 7\<rparr>"
      "[]" 7 "\<lambda>n g. (replicate n 1, g)" demo_fitter "[0, 0]" "[10, 20]" None None False]
  from t1 have e: "eval_all demo_env [[10, 20], [0, 0], [10, 20]] demo_world =
     ([Inr 0, Inr 100000000000, Inr 0], demo_world)"
    unfolding ws list.map v by blast
  from t2 have c: "call_prog demo_env [10, 20] (demo_world\<lparr>w_rng := 7\<rparr>) =
      (Inr 0, demo_world\<lparr>w_rng := 7\<rparr>)"
    unfolding ws v by blast
  from t1 have d: "self_randomn (snd (fit demo_env demo_fitter [10, 20] None None False)) = [0, 0, 0]"
    unfolding r by blast
  from e c d demo_draw_advances demo_assign_changes show ?thesis by blast
qed

section \<open>The order of the galaxies\<close>

text \<open>
  Claim C8. When all per-galaxy arrays of a well-formed fitter (raw and corrected
  redshifts and errors, chi-square, \<^verbatim>\<open>mstar\<close>, \<^verbatim>\<open>refmag\<close>, \<^verbatim>\<open>randomn\<close>, the calibration
  redshifts, and \<^verbatim>\<open>zmax\<close> when it has one value per galaxy) are reordered by the same
  permutation, the cost function returns the same value at every parameter vector,
  given that the histogram counts its data whatever their order.
\<close>

theorem cost_permutation_invariant:
  assumes "wf_fitter s" and "is_permutation p (length (self_z s))" and "hist_order_free env"
  shows "fst (call env (permute_fitter p s) pars) = fst (call env s pars)"
proof (cases "CubicSpline env (self_nodes s) pars")
  case (Inl e)
  have "CubicSpline env (self_nodes (permute_fitter p s)) pars = Inl e"
    using Inl by (simp add: permute_fitter_def)
  then show ?thesis
    by (simp add: call_def cost_spline_error Inl)
next
  case (Inr spl)
  have sp: "CubicSpline env (self_nodes (permute_fitter p s)) pars = Inr spl"
    using Inr by (simp add: permute_fitter_def)
  note m = survivors_data_mset[OF assms(1,2), of spl]
  have emp: "(survivors spl (permute_fitter p s) = []) = (survivors spl s = [])"
    using m by (metis map_is_Nil_conv mset_zero_iff)
  have dc: "density_cost env (permute_fitter p s)
              (map (zsamp_of (permute_fitter p s)) (survivors spl (permute_fitter p s))) =
            density_cost env s (map (zsamp_of s) (survivors spl s))"
    unfolding density_cost_permute by (rule density_cost_order_free[OF assms(3) m])
  show ?thesis
    unfolding call_def fst_conv cost_wf[OF permute_wf[OF assms(1,2)] sp] cost_wf[OF assms(1) Inr]
      emp dc
    by (rule refl)
qed

theorem cost_permutation_invariant_witness:
  "is_permutation [2, 0, 1] 3 \<and>
   self_chisq (permute_fitter [2, 0, 1] demo_fitter) = [30, 1, 5] \<and>
   self_z (permute_fitter [2, 0, 1] demo_fitter) = [0.4, 0.2, 0.3] \<and>
   fst (call demo_env (permute_fitter [2, 0, 1] demo_fitter) [10, 20]) = Inr 0"
proof -
  have n: "length (self_z demo_fitter) = 3" by (simp add: demo_fitter_def)
  have c: "fst (call demo_env demo_fitter [10, 20]) = Inr 0"
    by (simp add: call_def demo_cost)
  have f: "self_chisq (permute_fitter [2, 0, 1] demo_fitter) = [30, 1, 5]"
    "self_z (permute_fitter [2, 0, 1] demo_fitter) = [0.4, 0.2, 0.3]"
    by (simp_all add: permute_fitter_def np_take_def demo_fitter_def)
  note t = cost_permutation_invariant[OF wf_demo_fitter demo_is_permutation
      count_histogram_order_free, of "[10, 20]"]
  show ?thesis
    using t demo_is_permutation f unfolding c n by blast
qed

section \<open>The redshift window of a node\<close>

text \<open>
  Claim C9. In the search for the starting threshold of node \<open>j\<close> (lines 534-551), on a
  grid with a first and a last node (two nodes or more), the window of the first node
  is \<open>[nodes[0], nodes[0] + zbinsize]\<close>, the window of the last node is
  \<open>[nodes[last] - zbinsize, nodes[last]]\<close>, and the window of every node between them
  is the symmetric \<open>[nodes[j] - zbinsize/2, nodes[j] + zbinsize/2]\<close>; every window is
  one bin width wide. The window is the one the search uses: a threshold that the
  search returns for node \<open>j\<close> is the \<open>chisq\<close> of a possible galaxy whose redshift
  lies inside the window of node \<open>j\<close>.
\<close>

theorem node_zrange_windows:
  assumes "2 \<le> length nodes" and "j < length nodes"
  shows "(j = 0 \<longrightarrow> node_zrange nodes zbinsize j = (nodes ! 0, nodes ! 0 + zbinsize)) \<and>
         (j = length nodes - 1 \<longrightarrow>
            node_zrange nodes zbinsize j =
              (nodes ! (length nodes - 1) - zbinsize, nodes ! (length nodes - 1))) \<and>
         (0 < j \<and> j < length nodes - 1 \<longrightarrow>
            node_zrange nodes zbinsize j = (nodes ! j - zbinsize / 2, nodes ! j + zbinsize / 2)) \<and>
         snd (node_zrange nodes zbinsize j) - fst (node_zrange nodes zbinsize j) = zbinsize \<and>
         (\<forall>c. list_all (\<lambda>i. i < length gals) red_poss \<and>
               node_cmaxval gals red_poss test_vol n0 nodes zbinsize j = Inr c \<longrightarrow>
               (\<exists>i\<in>set (window_galaxies gals red_poss (node_zrange nodes zbinsize j)).
                  c = gal_chisq (gals ! i)))"
proof -
  have w: "j = 0 \<longrightarrow> node_zrange nodes zbinsize j = (nodes ! 0, nodes ! 0 + zbinsize)"
    by (simp add: node_zrange_def)
  have l: "j = length nodes - 1 \<longrightarrow>
            node_zrange nodes zbinsize j =
              (nodes ! (length nodes - 1) - zbinsize, nodes ! (length nodes - 1))"
    using assms by (auto simp: node_zrange_def)
  have m: "0 < j \<and> j < length nodes - 1 \<longrightarrow>
            node_zrange nodes zbinsize j = (nodes ! j - zbinsize / 2, nodes ! j + zbinsize / 2)"
    by (simp add: node_zrange_def)
  have d: "snd (node_zrange nodes zbinsize j) - fst (node_zrange nodes zbinsize j) = zbinsize"
    by (simp add: node_zrange_def)
  have s: "\<forall>c. list_all (\<lambda>i. i < length gals) red_poss \<and>
               node_cmaxval gals red_poss test_vol n0 nodes zbinsize j = Inr c \<longrightarrow>
               (\<exists>i\<in>set (window_galaxies gals red_poss (node_zrange nodes zbinsize j)).
                  c = gal_chisq (gals ! i))"
    using node_cmaxval_in_window by blast
  from w l m d s show ?thesis by blast
qed

theorem node_zrange_windows_witness:
  "node_zrange [0.2, 0.3, 0.4] 0.02 0 = (0.2, 0.22) \<and>
   node_zrange [0.2, 0.3, 0.4] 0.02 1 = (0.29, 0.31) \<and>
   node_zrange [0.2, 0.3, 0.4] 0.02 2 = (0.38, 0.4) \<and>
   node_zrange [0.2, 0.4] 0.02 1 = (0.38, 0.4) \<and>
   window_galaxies demo_gals [0, 1] (node_zrange [0.2, 0.3, 0.4] 0.02 0) = [0, 1] \<and>
   window_galaxies demo_gals [0, 1] (node_zrange [0.2, 0.3, 0.4] 0.02 1) = [] \<and>
   node_cmaxval demo_gals [0, 1] [10000, 10000, 10000] 1 [0.2, 0.3, 0.4] 0.02 0 = Inr 2 \<and>
   gal_chisq (demo_gals ! 1) = 2 \<and>
   node_cmaxval demo_gals [0, 1] [10000, 10000, 10000] 1 [0.2, 0.3, 0.4] 0.02 1 = Inl IndexError"
proof -
  have n: "2 \<le> length [0.2, 0.3, 0.4 :: real]" "2 \<le> length [0.2, 0.4 :: real]" by simp_all
  have l: "(0::nat) < length [0.2, 0.3, 0.4 :: real]" "(1::nat) < length [0.2, 0.3, 0.4 :: real]"
    "(2::nat) < length [0.2, 0.3, 0.4 :: real]" "(1::nat) < length [0.2, 0.4 :: real]"
    by simp_all
  have rp: "list_all (\<lambda>i. i < length demo_gals) [0, 1]" by (simp add: demo_gals_def)
  note t0 = node_zrange_windows[OF n(1) l(1), of "0.02" demo_gals "[0, 1]"
      "[10000, 10000, 10000]" 1]
  note t1 = node_zrange_windows[OF n(1) l(2), of "0.02" demo_gals "[0, 1]"
      "[10000, 10000, 10000]" 1]
  note t2 = node_zrange_windows[OF n(1) l(3), of "0.02" demo_gals "[0, 1]"
      "[10000, 10000, 10000]" 1]
  note t3 = node_zrange_windows[OF n(2) l(4), of "0.02" demo_gals "[0, 1]"
      "[10000, 10000, 10000]" 1]
  from t0 have z0: "node_zrange [0.2, 0.3, 0.4] 0.02 0 = (0.2, 0.22)" by simp
  from t1 have z1: "node_zrange [0.2, 0.3, 0.4] 0.02 1 = (0.29, 0.31)" by simp
  from t2 have z2: "node_zrange [0.2, 0.3, 0.4] 0.02 2 = (0.38, 0.4)" by simp
  from t3 have z3: "node_zrange [0.2, 0.4] 0.02 1 = (0.38, 0.4)" by simp
  from t0 rp demo_node0
  have "\<exists>i\<in>set (window_galaxies demo_gals [0, 1] (node_zrange [0.2, 0.3, 0.4] 0.02 0)).
          2 = gal_chisq (demo_gals ! i)"
    by blast
  then have c: "gal_chisq (demo_gals ! 1) = 2"
    unfolding z0 demo_window0 by (auto simp: demo_gals_def)
  show ?thesis
    unfolding z0 z1 z2 z3 demo_window0 demo_window1 demo_node0 demo_node1
    using c by simp
qed

section \<open>The afterburner fit without a held-out index set\<close>

text \<open>
  Claim C6 says that \<^verbatim>\<open>fit_bias_eratio\<close> raises a configuration error when no held-out
  index set was given, as \<^verbatim>\<open>fit\<close> with the afterburner does. The method has no such
  check: on the fitter built with \<^verbatim>\<open>ab_use=None\<close> it goes on to index the arrays with
  \<^verbatim>\<open>None\<close> and stops at the unpacking of \<^verbatim>\<open>np.where\<close> with a ValueError, while \<^verbatim>\<open>fit\<close>
  on the same object raises the RuntimeError of line 147.
\<close>

theorem fit_bias_eratio_without_ab_use:
  "self_ab_use demo_fitter_no_ab = None \<and>
   fit_bias_eratio demo_env demo_fitter_no_ab [10, 20] [0, 0] [1, 1] =
     Inl (ValueError ''too many values to unpack (expected 1)'') \<and>
   fst (fit demo_env demo_fitter_no_ab [10, 20] (Some [0, 0]) (Some [1, 1]) True) =
     Inl (RuntimeError ''Must set afterburner_use if using the afterburner'')"
proof -
  have a: "fit_bias_eratio demo_env demo_fitter_no_ab [10, 20] [0, 0] [1, 1] =
     Inl (ValueError ''too many values to unpack (expected 1)'')"
    by (rule fit_bias_eratio_no_ab_use[OF wf_demo_fitter_no_ab demo_no_ab_use demo_spline_no_ab])
  have b: "fst (fit demo_env demo_fitter_no_ab [10, 20] (Some [0, 0]) (Some [1, 1]) True) =
     Inl (RuntimeError ''Must set afterburner_use if using the afterburner'')"
    unfolding fit_no_ab_use[OF demo_no_ab_use] fst_conv by (rule refl)
  from a b demo_no_ab_use show ?thesis by blast
qed

section \<open>A node window without galaxies\<close>

text \<open>
  Claim C7 says that a run aborts with a configuration error when no galaxy passes the
  prefilter, and when the window of a node holds no galaxies or too few. The prefilter
  does raise its RuntimeError. The search for the starting thresholds has no such
  check: with two galaxies at redshift 0.21 and nodes at 0.2, 0.3 and 0.4, the first
  node gets its threshold, the window of the second node is empty, the index found by
  \<^verbatim>\<open>np.searchsorted\<close> is the size of the (empty) sorted array, and the read at that
  index is an IndexError.
\<close>

theorem empty_node_window_index_error:
  "prefilter demo_env demo_conf [] =
     Inl (RuntimeError ''No galaxies in redshift range/chisq range/eta range.'') \<and>
   node_zrange [0.2, 0.3, 0.4] 0.02 1 = (0.29, 0.31) \<and>
   map gal_zuse demo_gals = [0.21, 0.21] \<and>
   node_cmaxval demo_gals [0, 1] [10000, 10000, 10000] 1 [0.2, 0.3, 0.4] 0.02 0 = Inr 2 \<and>
   initial_cmaxvals demo_gals [0, 1] [10000, 10000, 10000] 1 [0.2, 0.3, 0.4] 0.02 = Inl IndexError"
proof -
  have e: "redmagic_etas demo_conf \<noteq> []" "length (redmagic_zrange demo_conf) = 2"
    by (simp_all add: demo_conf_def)
  have a: "prefilter demo_env demo_conf [] =
     Inl (RuntimeError ''No galaxies in redshift range/chisq range/eta range.'')"
    by (rule prefilter_no_galaxy[OF e]) simp
  have b: "node_zrange [0.2, 0.3, 0.4] 0.02 1 = (0.29, 0.31)"
    by (simp add: node_zrange_def)
  have c: "map gal_zuse demo_gals = [0.21, 0.21]" by (simp add: demo_gals_def)
  have n: "[0..<length [0.2, 0.3, 0.4 :: real]] = [0, 1, 2]" by (simp add: upt_rec)
  have d: "initial_cmaxvals demo_gals [0, 1] [10000, 10000, 10000] 1 [0.2, 0.3, 0.4] 0.02 =
           Inl IndexError"
    unfolding initial_cmaxvals_def n cmaxvals_from.simps demo_node0 bindE_Inr demo_node1 bindE_Inl
    by (rule refl)
  from a b c d demo_node0 show ?thesis by blast
qed

end
